theory Spec2Isabelle
  imports Main "HOL-Library.Sublist"
begin

section \<open>Python values\<close>

text \<open>
  The presubmit helper \<^verbatim>\<open>lint_wpt_root\<close> of
  \<^verbatim>\<open>blinkpy/presubmit/common_checks.py\<close> works on Python \<^verbatim>\<open>str\<close> and
  \<^verbatim>\<open>bytes\<close> values.  A \<^verbatim>\<open>bytes\<close> value is a list of 8-bit characters.  A
  \<^verbatim>\<open>str\<close> is represented by its UTF-8 encoding: concatenation, \<^verbatim>\<open>endswith\<close>
  and splitting at the ASCII separator \<^verbatim>\<open>/\<close> agree on a text and on its UTF-8
  encoding, and the UTF-8 encoding is what a text-mode file holds.  Exceptions are values
  of the type \<open>exn\<close>; a call that can raise returns \<open>exn + 'a\<close>.
\<close>

type_synonym str = string
type_synonym bytes = string
type_synonym path = string

datatype exn =
    ValueError
  | FileExistsError
  | FileNotFoundError path
  | PermissionError path
  | UnicodeDecodeError
  | UnicodeEncodeError
  | OSError string

definition endswith :: "str \<Rightarrow> str \<Rightarrow> bool" where
  "endswith s t = suffix t s"

definition startswith :: "str \<Rightarrow> str \<Rightarrow> bool" where
  "startswith s t = prefix t s"

text \<open>\<^verbatim>\<open>a or b\<close> on an optional string: \<^verbatim>\<open>None\<close> and the empty string are falsy.\<close>

definition py_or :: "str option \<Rightarrow> str \<Rightarrow> str" where
  "py_or a b = (case a of None \<Rightarrow> b | Some s \<Rightarrow> if s = [] then b else s)"

subsection \<open>\<^verbatim>\<open>bytes.decode()\<close>: strict UTF-8\<close>

definition byte_in :: "char \<Rightarrow> nat \<Rightarrow> nat \<Rightarrow> bool" where
  "byte_in c lo hi = (lo \<le> of_char c \<and> of_char c \<le> hi)"

text \<open>
  Well-formed UTF-8 byte sequences (the Unicode standard's table, which the strict
  decoder follows): no overlong forms, no surrogates, nothing above U+10FFFF.
\<close>

fun utf8_valid :: "bytes \<Rightarrow> bool" where
  "utf8_valid [] = True"
| "utf8_valid (a # bs) =
     (if byte_in a 0x00 0x7F then utf8_valid bs
      else if byte_in a 0xC2 0xDF then
        (case bs of b # r \<Rightarrow> byte_in b 0x80 0xBF \<and> utf8_valid r | _ \<Rightarrow> False)
      else if byte_in a 0xE0 0xEF then
        (case bs of
           b # c # r \<Rightarrow>
             byte_in b (if a = CHR 0xE0 then 0xA0 else 0x80)
                       (if a = CHR 0xED then 0x9F else 0xBF) \<and>
             byte_in c 0x80 0xBF \<and> utf8_valid r
         | _ \<Rightarrow> False)
      else if byte_in a 0xF0 0xF4 then
        (case bs of
           b # c # d # r \<Rightarrow>
             byte_in b (if a = CHR 0xF0 then 0x90 else 0x80)
                       (if a = CHR 0xF4 then 0x8F else 0xBF) \<and>
             byte_in c 0x80 0xBF \<and> byte_in d 0x80 0xBF \<and> utf8_valid r
         | _ \<Rightarrow> False)
      else False)"

definition decode :: "bytes \<Rightarrow> exn + str" where
  "decode b = (if utf8_valid b then Inr b else Inl UnicodeDecodeError)"

section \<open>\<^verbatim>\<open>os.path\<close> on POSIX\<close>

text \<open>\<^verbatim>\<open>s.split('/')\<close> and \<^verbatim>\<open>'/'.join(comps)\<close>.\<close>

fun split_sep :: "str \<Rightarrow> str list" where
  "split_sep [] = [[]]"
| "split_sep (c # s) =
     (if c = CHR ''/'' then [] # split_sep s
      else (case split_sep s of [] \<Rightarrow> [[c]] | x # xs \<Rightarrow> (c # x) # xs))"

fun join_sep :: "str list \<Rightarrow> str" where
  "join_sep [] = []"
| "join_sep [c] = c"
| "join_sep (c # d # cs) = c @ ''/'' @ join_sep (d # cs)"

text \<open>
  \<^verbatim>\<open>posixpath.join(a, *p)\<close>: an absolute component discards what came before it,
  otherwise components are appended with exactly one separator between them.
\<close>

fun posix_join :: "path \<Rightarrow> path list \<Rightarrow> path" where
  "posix_join a [] = a"
| "posix_join a (b # p) =
     posix_join (if startswith b ''/'' \<or> a = [] then b
                 else if endswith a ''/'' then a @ b
                 else a @ ''/'' @ b) p"

text \<open>
  The loop of \<^verbatim>\<open>posixpath.normpath\<close> over the components: \<open>new_comps\<close> is the
  accumulator, \<open>initial_slashes\<close> the number of leading slashes kept (0, 1 or 2).
\<close>

fun norm_comps :: "nat \<Rightarrow> str list \<Rightarrow> str list \<Rightarrow> str list" where
  "norm_comps initial_slashes new_comps [] = new_comps"
| "norm_comps initial_slashes new_comps (c # comps) =
     (if c = [] \<or> c = ''.'' then norm_comps initial_slashes new_comps comps
      else if c \<noteq> ''..'' \<or> (initial_slashes = 0 \<and> new_comps = []) \<or>
              (new_comps \<noteq> [] \<and> last new_comps = ''..'')
        then norm_comps initial_slashes (new_comps @ [c]) comps
      else if new_comps \<noteq> [] then norm_comps initial_slashes (butlast new_comps) comps
      else norm_comps initial_slashes new_comps comps)"

definition normpath :: "path \<Rightarrow> path" where
  "normpath p =
     (if p = [] then ''.''
      else
        let initial_slashes =
              (if startswith p ''/'' then
                 (if startswith p ''//'' \<and> \<not> startswith p ''///'' then 2 else 1)
               else (0::nat));
            comps = norm_comps initial_slashes [] (split_sep p);
            q = replicate initial_slashes (CHR ''/'') @ join_sep comps
        in if q = [] then ''.'' else q)"

definition isabs :: "path \<Rightarrow> bool" where
  "isabs p = startswith p ''/''"

text \<open>\<^verbatim>\<open>posixpath.abspath\<close>, with the current directory \<open>cwd\<close> as a parameter.\<close>

definition abspath :: "path \<Rightarrow> path \<Rightarrow> path" where
  "abspath cwd p = normpath (if isabs p then p else posix_join cwd [p])"

text \<open>\<^verbatim>\<open>genericpath.commonprefix\<close> of two component lists.\<close>

fun commonprefix :: "'a list \<Rightarrow> 'a list \<Rightarrow> 'a list" where
  "commonprefix (x # xs) (y # ys) = (if x = y then x # commonprefix xs ys else [])"
| "commonprefix xs ys = []"

definition path_parts :: "path \<Rightarrow> path \<Rightarrow> str list" where
  "path_parts cwd p = filter (\<lambda>x. x \<noteq> []) (split_sep (abspath cwd p))"

text \<open>
  \<^verbatim>\<open>posixpath.relpath(path, start)\<close>: \<^verbatim>\<open>ValueError\<close> on an empty path, otherwise
  one \<^verbatim>\<open>..\<close> for every component of \<open>start\<close> beyond the common prefix, followed by
  the components of \<open>path\<close> beyond it.
\<close>

definition posix_relpath :: "path \<Rightarrow> path \<Rightarrow> path \<Rightarrow> exn + path" where
  "posix_relpath cwd p start =
     (if p = [] then Inl ValueError
      else
        let start_list = path_parts cwd start;
            path_list = path_parts cwd p;
            i = length (commonprefix start_list path_list);
            rel_list = replicate (length start_list - i) ''..'' @ drop i path_list
        in (case rel_list of
              [] \<Rightarrow> Inr ''.''
            | a # rest \<Rightarrow> Inr (posix_join a rest)))"

section \<open>The calling environment\<close>

text \<open>
  The file system maps a path to the contents of the file there.  A child process is
  described by what \<^verbatim>\<open>communicate()\<close> returns or raises, by the
  \<^verbatim>\<open>returncode\<close> it leaves, and by the files as they are when
  \<^verbatim>\<open>communicate()\<close> is over (the child may create and delete files, the
  paths file among them).
\<close>

type_synonym filesystem = "path \<rightharpoonup> string"

record proc =
  communicate :: "exn + bytes \<times> bytes"
  returncode :: int
  files_after :: filesystem

text \<open>
  \<^verbatim>\<open>input_api\<close>: what the presubmit framework hands to the check.
  \<open>RepositoryRoot\<close> is \<^verbatim>\<open>input_api.change.RepositoryRoot()\<close>, \<open>os_path_join\<close>
  and \<open>os_path_relpath\<close> are \<^verbatim>\<open>input_api.os_path.join\<close> and
  \<^verbatim>\<open>input_api.os_path.relpath\<close>, and \<open>subprocess_Popen\<close> is
  \<^verbatim>\<open>input_api.subprocess.Popen\<close> with both streams piped: it raises, or starts a
  child that sees the files of the moment.
\<close>

record input_api =
  PresubmitLocalPath :: path
  RepositoryRoot :: path
  AbsoluteLocalPaths :: "path list"
  python3_executable :: str
  is_committing :: bool
  os_path_join :: "path \<Rightarrow> path list \<Rightarrow> path"
  os_path_relpath :: "path \<Rightarrow> path \<Rightarrow> exn + path"
  subprocess_Popen :: "str list \<Rightarrow> filesystem \<Rightarrow> exn + proc"

text \<open>\<^verbatim>\<open>output_api.PresubmitError(message, long_text=...)\<close> builds a result entry.\<close>

record 'r output_api =
  PresubmitError :: "str \<Rightarrow> str \<Rightarrow> 'r"

text \<open>
  The state a call works on: the files, the current directory, the directory and the
  candidate names that \<^verbatim>\<open>tempfile\<close> draws from, and the log of the
  \<^verbatim>\<open>Popen\<close> calls made so far, each with its argument list and the files at that
  moment.  What the operating system refuses is part of the state as well:
  \<open>write_error\<close> is the exception of writing a text to an open file (a text that the
  file's encoding cannot hold, a full disk), \<open>close_error\<close> the exception of closing
  it, and \<open>remove_error\<close> the exception of removing an existing file (no permission);
  \<open>None\<close> where the operation goes through.
\<close>

record world =
  files :: filesystem
  getcwd :: path
  tempdir :: path
  candidate_names :: "str list"
  write_error :: "path \<Rightarrow> str \<Rightarrow> exn option"
  close_error :: "path \<Rightarrow> exn option"
  remove_error :: "path \<Rightarrow> exn option"
  popen_calls :: "(str list \<times> filesystem) list"

section \<open>\<^verbatim>\<open>tempfile\<close> and \<^verbatim>\<open>os.remove\<close>\<close>

text \<open>
  The loop of \<^verbatim>\<open>tempfile._mkstemp_inner\<close>: the first candidate
  \<^verbatim>\<open>dir/tmpNAME\<close> that does not exist is created exclusively;
  \<^verbatim>\<open>FileExistsError\<close> when the candidates run out.
\<close>

fun try_names :: "filesystem \<Rightarrow> path \<Rightarrow> str list \<Rightarrow> exn + path" where
  "try_names fs dir [] = Inl FileExistsError"
| "try_names fs dir (name # names) =
     (let file = posix_join dir [''tmp'' @ name]
      in if fs file = None then Inr file else try_names fs dir names)"

text \<open>\<^verbatim>\<open>_mkstemp_inner\<close> makes the directory absolute before it tries the names.\<close>

definition mkstemp_inner :: "world \<Rightarrow> exn + path" where
  "mkstemp_inner w =
     try_names (files w) (abspath (getcwd w) (tempdir w)) (candidate_names w)"

text \<open>
  \<^verbatim>\<open>NamedTemporaryFile('w+', newline='', delete=False)\<close>: a new empty file that
  stays when it is closed.
\<close>

definition NamedTemporaryFile :: "world \<Rightarrow> (exn + path) \<times> world" where
  "NamedTemporaryFile w =
     (case mkstemp_inner w of
        Inl e \<Rightarrow> (Inl e, w)
      | Inr name \<Rightarrow> (Inr name, w\<lparr>files := (files w)(name \<mapsto> [])\<rparr>))"

text \<open>
  \<^verbatim>\<open>f.write(s)\<close> raises and leaves the file as it is, or appends \<open>s\<close> (no newline
  translation).  Closing the file raises or does nothing more.
\<close>

definition f_write :: "path \<Rightarrow> str \<Rightarrow> world \<Rightarrow> (exn + unit) \<times> world" where
  "f_write name s w =
     (case write_error w name s of
        Some e \<Rightarrow> (Inl e, w)
      | None \<Rightarrow>
          (Inr (),
           w\<lparr>files := (files w)(name \<mapsto>
                 (case files w name of None \<Rightarrow> s | Some old \<Rightarrow> old @ s))\<rparr>))"

definition f_close :: "path \<Rightarrow> world \<Rightarrow> (exn + unit) \<times> world" where
  "f_close name w = (case close_error w name of Some e \<Rightarrow> (Inl e, w) | None \<Rightarrow> (Inr (), w))"

text \<open>
  \<^verbatim>\<open>os.remove\<close>: \<^verbatim>\<open>FileNotFoundError\<close> when there is no such file; an existing
  file is removed, unless the operating system refuses, and then it stays.
\<close>

definition os_remove :: "path \<Rightarrow> world \<Rightarrow> (exn + unit) \<times> world" where
  "os_remove p w =
     (if files w p = None then (Inl (FileNotFoundError p), w)
      else
        (case remove_error w p of
           Some e \<Rightarrow> (Inl e, w)
         | None \<Rightarrow> (Inr (), w\<lparr>files := (files w)(p := None)\<rparr>)))"

section \<open>\<^verbatim>\<open>lint_wpt_root\<close>\<close>

text \<open>
  Lines 17 to 20: the loop over \<^verbatim>\<open>input_api.AbsoluteLocalPaths()\<close>, with the list
  \<open>paths\<close> built so far.  An exception of \<^verbatim>\<open>relpath\<close> leaves the loop.
\<close>

fun collect_paths :: "input_api \<Rightarrow> path \<Rightarrow> path list \<Rightarrow> path list \<Rightarrow> exn + path list" where
  "collect_paths input_api repo_root paths [] = Inr paths"
| "collect_paths input_api repo_root paths (abs_path # rest) =
     (case os_path_relpath input_api abs_path repo_root of
        Inl e \<Rightarrow> Inl e
      | Inr rel \<Rightarrow>
          collect_paths input_api repo_root
            (if endswith abs_path rel then paths @ [abs_path] else paths) rest)"

text \<open>Lines 24 to 40: the arguments every command starts with.\<close>

definition lint_args :: "input_api \<Rightarrow> path \<Rightarrow> path \<Rightarrow> path \<Rightarrow> str list" where
  "lint_args input_api wpt_executable wpt_root repo_root =
     [python3_executable input_api,
      wpt_executable,
      ''--venv='' @ wpt_root,
      ''--skip-venv-setup'',
      ''lint'',
      ''--repo-root='' @ repo_root,
      ''--ignore-glob=*-expected.txt'',
      ''--ignore-glob=*.ini'',
      ''--ignore-glob=*DIR_METADATA'',
      ''--ignore-glob=*OWNERS'',
      ''--ignore-glob=config.tmpl.json'']"

text \<open>
  Lines 53 and 54: one \<^verbatim>\<open>f.write(f'{path}\n')\<close> for every path; the first write
  that raises ends the loop.
\<close>

fun write_paths :: "path \<Rightarrow> path list \<Rightarrow> world \<Rightarrow> (exn + unit) \<times> world" where
  "write_paths name [] w = (Inr (), w)"
| "write_paths name (p # ps) w =
     (case f_write name (p @ [CHR 0x0A]) w of
        (Inl e, w1) \<Rightarrow> (Inl e, w1)
      | (Inr u, w1) \<Rightarrow> write_paths name ps w1)"

text \<open>
  Lines 44 to 54: \<^verbatim>\<open>--all\<close> when committing, otherwise a paths file.  The result
  is \<open>paths_name\<close> (\<open>None\<close> as in the source) and the finished argument list.  The
  \<^verbatim>\<open>with\<close> statement closes the file whether its body raised or not; an exception
  of the close replaces the one of the body.  These lines stand before the
  \<^verbatim>\<open>try\<close>: an exception here leaves the function with the file in place.
\<close>

definition target_args ::
  "input_api \<Rightarrow> str list \<Rightarrow> path list \<Rightarrow> world \<Rightarrow> (exn + path option \<times> str list) \<times> world" where
  "target_args input_api args paths w =
     (if is_committing input_api then (Inr (None, args @ [''--all'']), w)
      else
        (case NamedTemporaryFile w of
           (Inl e, w1) \<Rightarrow> (Inl e, w1)
         | (Inr paths_name, w1) \<Rightarrow>
             (case write_paths paths_name paths w1 of
                (body, w2) \<Rightarrow>
                  (case f_close paths_name w2 of
                     (Inl e, w3) \<Rightarrow> (Inl e, w3)
                   | (Inr u, w3) \<Rightarrow>
                       (case body of
                          Inl e \<Rightarrow> (Inl e, w3)
                        | Inr v \<Rightarrow>
                            (Inr (Some paths_name,
                                  args @ [''--paths-file='' @ paths_name]), w3))))))"

text \<open>
  Lines 57 to 60, the body of the \<^verbatim>\<open>try\<close>: \<^verbatim>\<open>Popen\<close> is called (and
  logged), then \<^verbatim>\<open>communicate()\<close>; either may raise.
\<close>

definition run_child ::
  "input_api \<Rightarrow> str list \<Rightarrow> world \<Rightarrow> (exn + proc \<times> bytes \<times> bytes) \<times> world" where
  "run_child input_api args w =
     (let w1 = w\<lparr>popen_calls := popen_calls w @ [(args, files w)]\<rparr>
      in case subprocess_Popen input_api args (files w) of
           Inl e \<Rightarrow> (Inl e, w1)
         | Inr p \<Rightarrow>
             (let w2 = w1\<lparr>files := files_after p\<rparr>
              in case communicate p of
                   Inl e \<Rightarrow> (Inl e, w2)
                 | Inr (out, err) \<Rightarrow> (Inr (p, out, err), w2)))"

text \<open>
  Lines 61 to 63, the \<^verbatim>\<open>finally\<close> block: \<^verbatim>\<open>if paths_name: os.remove(paths_name)\<close>.
\<close>

definition cleanup :: "path option \<Rightarrow> world \<Rightarrow> (exn + unit) \<times> world" where
  "cleanup paths_name w =
     (case paths_name of
        None \<Rightarrow> (Inr (), w)
      | Some name \<Rightarrow> if name = [] then (Inr (), w) else os_remove name w)"

text \<open>
  \<^verbatim>\<open>try: ... finally: ...\<close>: the cleanup runs whatever the body did; an exception
  of the cleanup replaces the outcome of the body, otherwise the outcome of the body
  stands (its exception goes on to the caller).
\<close>

definition run_and_cleanup ::
  "input_api \<Rightarrow> str list \<Rightarrow> path option \<Rightarrow> world \<Rightarrow> (exn + proc \<times> bytes \<times> bytes) \<times> world" where
  "run_and_cleanup input_api args paths_name w =
     (case run_child input_api args w of
        (r, w1) \<Rightarrow>
          (case cleanup paths_name w1 of
             (Inl e, w2) \<Rightarrow> (Inl e, w2)
           | (Inr u, w2) \<Rightarrow> (r, w2)))"

text \<open>Lines 65 to 70: the exit code decides the result.\<close>

definition report :: "'r output_api \<Rightarrow> proc \<times> bytes \<times> bytes \<Rightarrow> exn + 'r list" where
  "report output_api r =
     (case r of
        (p, out, err) \<Rightarrow>
          if returncode p \<noteq> 0 then
            (case decode (out @ err) of
               Inl e \<Rightarrow> Inl e
             | Inr long_text \<Rightarrow>
                 Inr [PresubmitError output_api ''`wpt lint` failed:'' long_text])
          else Inr [])"

definition lint_wpt_root ::
  "input_api \<Rightarrow> 'r output_api \<Rightarrow> str option \<Rightarrow> world \<Rightarrow> (exn + 'r list) \<times> world" where
  "lint_wpt_root input_api output_api repo_root_arg w =
     (let repo_root = py_or repo_root_arg (PresubmitLocalPath input_api);
          wpt_root = os_path_join input_api (RepositoryRoot input_api)
                       [''third_party'', ''wpt_tools'', ''wpt''];
          wpt_executable = os_path_join input_api wpt_root [''wpt'']
      in case collect_paths input_api repo_root [] (AbsoluteLocalPaths input_api) of
           Inl e \<Rightarrow> (Inl e, w)
         | Inr paths \<Rightarrow>
             if paths = [] then (Inr [], w)
             else
               (case target_args input_api
                       (lint_args input_api wpt_executable wpt_root repo_root) paths w of
                  (Inl e, w1) \<Rightarrow> (Inl e, w1)
                | (Inr (paths_name, args), w1) \<Rightarrow>
                    (case run_and_cleanup input_api args paths_name w1 of
                       (Inl e, w2) \<Rightarrow> (Inl e, w2)
                     | (Inr r, w2) \<Rightarrow> (report output_api r, w2))))"

section \<open>Notions used in the statements\<close>

text \<open>The outcome of the filter loop of an invocation, for the root it works with.\<close>

definition filtered_paths :: "input_api \<Rightarrow> str option \<Rightarrow> exn + path list" where
  "filtered_paths input_api repo_root_arg =
     collect_paths input_api (py_or repo_root_arg (PresubmitLocalPath input_api)) []
       (AbsoluteLocalPaths input_api)"

text \<open>The filter keeps a path when the loop, run on that path alone, appends it.\<close>

definition keeps :: "input_api \<Rightarrow> path \<Rightarrow> path \<Rightarrow> bool" where
  "keeps input_api repo_root abs_path =
     (collect_paths input_api repo_root [] [abs_path] = Inr [abs_path])"

text \<open>The arguments before the last one, as \<^verbatim>\<open>lint_wpt_root\<close> computes them.\<close>

definition base_command :: "input_api \<Rightarrow> str option \<Rightarrow> str list" where
  "base_command input_api repo_root_arg =
     (let wpt_root = os_path_join input_api (RepositoryRoot input_api)
                       [''third_party'', ''wpt_tools'', ''wpt'']
      in lint_args input_api (os_path_join input_api wpt_root [''wpt'']) wpt_root
           (py_or repo_root_arg (PresubmitLocalPath input_api)))"

definition is_paths_file_flag :: "str \<Rightarrow> bool" where
  "is_paths_file_flag a = startswith a ''--paths-file=''"

text \<open>The text of a paths file: every path followed by a newline.\<close>

definition paths_file_contents :: "path list \<Rightarrow> str" where
  "paths_file_contents paths = concat (map (\<lambda>p. p @ [CHR 0x0A]) paths)"

text \<open>The lines of a text, each ended by a newline (an unfinished last line counts).\<close>

fun lines_of :: "str \<Rightarrow> str list" where
  "lines_of [] = []"
| "lines_of (c # s) =
     (if c = CHR 0x0A then [] # lines_of s
      else (case lines_of s of [] \<Rightarrow> [[c]] | l # ls \<Rightarrow> (c # l) # ls))"

text \<open>
  Following the spec's words, "the path lies under the root": the components of the
  root directory are a proper initial segment of the components of the path.
\<close>

definition under_root :: "path \<Rightarrow> path \<Rightarrow> path \<Rightarrow> bool" where
  "under_root cwd repo_root abs_path =
     strict_prefix (path_parts cwd repo_root) (path_parts cwd abs_path)"

text \<open>
  A component of a normalised path: not empty, no separator in it, not \<^verbatim>\<open>.\<close>;
  components that end in \<^verbatim>\<open>..\<close> (\<^verbatim>\<open>..\<close> itself among them) are left out.
\<close>

definition plain_component :: "str \<Rightarrow> bool" where
  "plain_component c =
     (c \<noteq> [] \<and> CHR ''/'' \<notin> set c \<and> c \<noteq> ''.'' \<and> \<not> endswith c ''..'')"

text \<open>
  The paths file is created under \<open>name\<close> and written in full: \<^verbatim>\<open>tempfile\<close>
  finds the name, and no write and not the close raises.
\<close>

definition paths_file_written :: "world \<Rightarrow> path list \<Rightarrow> path \<Rightarrow> bool" where
  "paths_file_written w paths name \<longleftrightarrow>
     mkstemp_inner w = Inr name \<and>
     list_all (\<lambda>p. write_error w name (p @ [CHR 0x0A]) = None) paths \<and>
     close_error w name = None"

text \<open>
  The command of an invocation and the files at its launch: when committing the base
  command with \<^verbatim>\<open>--all\<close> and the files as they are, otherwise the base command
  with the paths-file flag and the files with the paths file written.
\<close>

definition command :: "input_api \<Rightarrow> str option \<Rightarrow> path \<Rightarrow> str list" where
  "command input_api repo_root_arg paths_name =
     base_command input_api repo_root_arg @
       [if is_committing input_api then ''--all'' else ''--paths-file='' @ paths_name]"

definition launch_files :: "input_api \<Rightarrow> path list \<Rightarrow> path \<Rightarrow> world \<Rightarrow> filesystem" where
  "launch_files input_api paths paths_name w =
     (if is_committing input_api then files w
      else (files w)(paths_name \<mapsto> paths_file_contents paths))"

section \<open>Examples\<close>

text \<open>
  A small checkout, used to evaluate the statements below on concrete calls.
\<close>

text \<open>A child that leaves the files alone, prints \<open>out\<close> and \<open>err\<close> and exits with \<open>rc\<close>.\<close>

definition ex_child :: "bytes \<Rightarrow> bytes \<Rightarrow> int \<Rightarrow> str list \<Rightarrow> filesystem \<Rightarrow> exn + proc" where
  "ex_child out err rc args fs =
     Inr \<lparr>communicate = Inr (out, err), returncode = rc, files_after = fs\<rparr>"

text \<open>
  An upload-time check at \<^verbatim>\<open>/r/w\<close> of the checkout \<^verbatim>\<open>/r\<close>, with three changed
  files, two of them under \<^verbatim>\<open>/r/w\<close>; the linter prints and exits with 1.
\<close>

definition ex_api :: input_api where
  "ex_api =
     \<lparr>PresubmitLocalPath = ''/r/w'', RepositoryRoot = ''/r'',
      AbsoluteLocalPaths = [''/r/w/a.html'', ''/r/x/b.cc'', ''/r/w/d/c.js''],
      python3_executable = ''python3'', is_committing = False,
      os_path_join = posix_join, os_path_relpath = posix_relpath ''/r/w'',
      subprocess_Popen = ex_child ''E1'' ''warn'' 1\<rparr>"

text \<open>
  The first candidate name of \<^verbatim>\<open>tempfile\<close> is taken by an existing file; the
  operating system refuses nothing.
\<close>

definition ex_world :: world where
  "ex_world =
     \<lparr>files = [''/tmp/tmpk3x9'' \<mapsto> ''old''], getcwd = ''/r/w'', tempdir = ''/tmp'',
      candidate_names = [''k3x9'', ''q0p1''],
      write_error = (\<lambda>name s. None), close_error = (\<lambda>name. None),
      remove_error = (\<lambda>name. None), popen_calls = []\<rparr>"

text \<open>
  The same state where no text can be written to a file, and where no file can be
  removed.
\<close>

definition ex_unwritable_world :: world where
  "ex_unwritable_world = ex_world\<lparr>write_error := (\<lambda>name s. Some UnicodeEncodeError)\<rparr>"

definition ex_locked_world :: world where
  "ex_locked_world = ex_world\<lparr>remove_error := (\<lambda>name. Some (PermissionError name))\<rparr>"

text \<open>Result entries as pairs of message and long text.\<close>

definition ex_out :: "(str \<times> str) output_api" where
  "ex_out = \<lparr>PresubmitError = Pair\<rparr>"

text \<open>A \<^verbatim>\<open>Popen\<close> that raises, and a child that deletes every file and breaks off.\<close>

definition ex_raise :: "str list \<Rightarrow> filesystem \<Rightarrow> exn + proc" where
  "ex_raise args fs = Inl (OSError ''exec format error'')"

definition ex_vanish :: "str list \<Rightarrow> filesystem \<Rightarrow> exn + proc" where
  "ex_vanish args fs =
     Inr \<lparr>communicate = Inl (OSError ''broken pipe''), returncode = 0, files_after = Map.empty\<rparr>"

text \<open>
  Variants of the check: at commit time; with a linter that prints a note and exits with
  0; with a \<^verbatim>\<open>Popen\<close> that raises; with a child that deletes the files; and with
  a linter that prints a byte that is not UTF-8 and exits with 1.
\<close>

definition ex_commit_api :: input_api where
  "ex_commit_api = ex_api\<lparr>is_committing := True\<rparr>"

definition ex_clean_api :: input_api where
  "ex_clean_api = ex_api\<lparr>subprocess_Popen := ex_child ''note'' [] 0\<rparr>"

definition ex_raise_api :: input_api where
  "ex_raise_api = ex_api\<lparr>subprocess_Popen := ex_raise\<rparr>"

definition ex_vanish_api :: input_api where
  "ex_vanish_api = ex_api\<lparr>subprocess_Popen := ex_vanish\<rparr>"

definition ex_binary_api :: input_api where
  "ex_binary_api = ex_api\<lparr>subprocess_Popen := ex_child [CHR 0xFF] ''warn'' 1\<rparr>"

section \<open>The filter loop and the paths file\<close>

lemma keeps_iff:
  "keeps api root p = (\<exists>rel. os_path_relpath api p root = Inr rel \<and> endswith p rel)"
  by (auto simp: keeps_def split: sum.splits)

lemma collect_paths_filter:
  "collect_paths api root acc xs = Inr ps \<Longrightarrow> ps = acc @ filter (keeps api root) xs"
proof (induction xs arbitrary: acc)
  case Nil
  then show ?case by simp
next
  case (Cons x xs)
  from Cons.prems obtain rel where rel: "os_path_relpath api x root = Inr rel"
    by (cases "os_path_relpath api x root") auto
  let ?acc = "if endswith x rel then acc @ [x] else acc"
  from Cons.prems rel have "collect_paths api root ?acc xs = Inr ps" by simp
  from Cons.IH [OF this] show ?case using rel by (simp add: keeps_iff)
qed

lemma write_paths_written:
  "files w n = Some old \<Longrightarrow>
   list_all (\<lambda>p. write_error w n (p @ [CHR 0x0A]) = None) ps \<Longrightarrow>
   write_paths n ps w =
     (Inr (), w\<lparr>files := (files w)(n \<mapsto> old @ paths_file_contents ps)\<rparr>)"
proof (induction ps arbitrary: w old)
  case Nil
  then show ?case by (simp add: paths_file_contents_def fun_upd_idem)
next
  case (Cons p ps)
  let ?w = "w\<lparr>files := (files w)(n \<mapsto> old @ p @ [CHR 0x0A])\<rparr>"
  have f: "f_write n (p @ [CHR 0x0A]) w = (Inr (), ?w)"
    using Cons.prems by (simp add: f_write_def)
  have "write_paths n ps ?w =
      (Inr (), ?w\<lparr>files := (files ?w)(n \<mapsto> (old @ p @ [CHR 0x0A]) @ paths_file_contents ps)\<rparr>)"
    using Cons.prems by (intro Cons.IH) simp_all
  then show ?case using f by (simp add: paths_file_contents_def fun_eq_iff)
qed

lemma try_names_fresh: "try_names fs dir names = Inr n \<Longrightarrow> fs n = None \<and> n \<noteq> []"
  by (induction names) (auto simp: Let_def split: if_splits)

lemma mkstemp_inner_fresh: "mkstemp_inner w = Inr n \<Longrightarrow> files w n = None \<and> n \<noteq> []"
  unfolding mkstemp_inner_def by (rule try_names_fresh)

lemma paths_file_written_fresh:
  "paths_file_written w paths n \<Longrightarrow> files w n = None \<and> n \<noteq> []"
  using mkstemp_inner_fresh [of w n] by (simp add: paths_file_written_def)

lemma target_args_commit:
  "is_committing api \<Longrightarrow> target_args api args paths w = (Inr (None, args @ [''--all'']), w)"
  by (simp add: target_args_def)

lemma target_args_upload:
  assumes "\<not> is_committing api" and "paths_file_written w paths n"
  shows "target_args api args paths w =
     (Inr (Some n, args @ [''--paths-file='' @ n]),
      w\<lparr>files := (files w)(n \<mapsto> paths_file_contents paths)\<rparr>)"
proof -
  let ?w1 = "w\<lparr>files := (files w)(n \<mapsto> [])\<rparr>"
  have m: "mkstemp_inner w = Inr n" "close_error w n = None"
    and l: "list_all (\<lambda>p. write_error w n (p @ [CHR 0x0A]) = None) paths"
    using assms(2) by (simp_all add: paths_file_written_def)
  have "write_paths n paths ?w1 =
      (Inr (), ?w1\<lparr>files := (files ?w1)(n \<mapsto> [] @ paths_file_contents paths)\<rparr>)"
    using l by (intro write_paths_written) simp_all
  then show ?thesis
    using assms(1) m by (simp add: target_args_def NamedTemporaryFile_def f_close_def)
qed

lemma target_args_write_fails:
  assumes "\<not> is_committing api" and "mkstemp_inner w = Inr n"
    and "write_error w n (p @ [CHR 0x0A]) = Some e" and "close_error w n = None"
  shows "target_args api args (p # ps) w = (Inl e, w\<lparr>files := (files w)(n \<mapsto> [])\<rparr>)"
  using assms by (simp add: target_args_def NamedTemporaryFile_def f_close_def f_write_def)

lemma lint_wpt_root_run:
  "filtered_paths api r = Inr paths \<Longrightarrow> paths \<noteq> [] \<Longrightarrow>
   target_args api (base_command api r) paths w = (Inr (pn, args), w1) \<Longrightarrow>
   lint_wpt_root api out r w =
     (case run_and_cleanup api args pn w1 of
        (Inl e, w2) \<Rightarrow> (Inl e, w2)
      | (Inr res, w2) \<Rightarrow> (report out res, w2))"
  by (simp add: lint_wpt_root_def filtered_paths_def base_command_def Let_def)

lemma lint_wpt_root_not_built:
  "filtered_paths api r = Inr paths \<Longrightarrow> paths \<noteq> [] \<Longrightarrow>
   target_args api (base_command api r) paths w = (Inl e, w1) \<Longrightarrow>
   lint_wpt_root api out r w = (Inl e, w1)"
  by (simp add: lint_wpt_root_def filtered_paths_def base_command_def Let_def)

text \<open>
  The exit before the \<^verbatim>\<open>try\<close>: when the first write raises, the call raises that
  exception, \<^verbatim>\<open>Popen\<close> is not called, and the new file stays, empty.
\<close>

lemma failing_write_leaves_file:
  assumes "\<not> is_committing api" and "filtered_paths api r = Inr (p # ps)"
    and "mkstemp_inner w = Inr n"
    and "write_error w n (p @ [CHR 0x0A]) = Some e" and "close_error w n = None"
  shows "lint_wpt_root api out r w = (Inl e, w\<lparr>files := (files w)(n \<mapsto> [])\<rparr>)"
  using lint_wpt_root_not_built [OF assms(2) _ target_args_write_fails [OF assms(1,3,4,5)]]
  by simp

section \<open>The command, the child and the cleanup\<close>

lemma run_child_log:
  "popen_calls (snd (run_child api args w)) = popen_calls w @ [(args, files w)]"
  by (simp add: run_child_def Let_def split: sum.splits prod.splits)

lemma cleanup_log: "popen_calls (snd (cleanup pn w)) = popen_calls w"
  by (simp add: cleanup_def os_remove_def split: option.splits)

lemma snd_run_and_cleanup:
  "snd (run_and_cleanup api args pn w) = snd (cleanup pn (snd (run_child api args w)))"
  by (simp add: run_and_cleanup_def split: prod.splits sum.splits)

lemma snd_lint_wpt_root_built:
  "snd (case x of (Inl e, w2) \<Rightarrow> (Inl e, w2) | (Inr res, w2) \<Rightarrow> (f res, w2)) = snd x"
  by (simp split: prod.splits sum.splits)

lemma run_and_cleanup_log:
  "popen_calls (snd (run_and_cleanup api args pn w)) = popen_calls w @ [(args, files w)]"
  by (simp add: snd_run_and_cleanup cleanup_log run_child_log)

lemma target_args_built:
  assumes "is_committing api \<or> paths_file_written w paths name"
  shows "target_args api (base_command api r) paths w =
           (Inr (if is_committing api then None else Some name, command api r name),
            w\<lparr>files := launch_files api paths name w\<rparr>)"
  using assms
  by (auto simp: target_args_commit target_args_upload command_def launch_files_def)

lemma lint_wpt_root_built:
  assumes "filtered_paths api r = Inr paths" "paths \<noteq> []"
    and "is_committing api \<or> paths_file_written w paths name"
  shows "lint_wpt_root api out r w =
     (case run_and_cleanup api (command api r name)
             (if is_committing api then None else Some name)
             (w\<lparr>files := launch_files api paths name w\<rparr>) of
        (Inl e, w2) \<Rightarrow> (Inl e, w2)
      | (Inr res, w2) \<Rightarrow> (report out res, w2))"
  using lint_wpt_root_run [OF assms(1,2) target_args_built [OF assms(3)]] .

lemma lint_wpt_root_log:
  assumes "filtered_paths api r = Inr paths" "paths \<noteq> []"
    and "is_committing api \<or> paths_file_written w paths name"
  shows "popen_calls (snd (lint_wpt_root api out r w)) =
           popen_calls w @ [(command api r name, launch_files api paths name w)]"
  by (simp add: lint_wpt_root_built [OF assms] snd_lint_wpt_root_built run_and_cleanup_log)

text \<open>
  What an upload-time call comes to once the paths file is written: the outcome of
  \<^verbatim>\<open>Popen\<close> and \<^verbatim>\<open>communicate()\<close>, then the removal of the file.
\<close>

lemma lint_wpt_root_upload:
  assumes "filtered_paths api r = Inr paths" "paths \<noteq> []" "\<not> is_committing api"
    and "paths_file_written w paths name"
  shows "lint_wpt_root api out r w =
     (case run_child api (command api r name)
             (w\<lparr>files := (files w)(name \<mapsto> paths_file_contents paths)\<rparr>) of
        (body, w1) \<Rightarrow>
          (if files w1 name = None then (Inl (FileNotFoundError name), w1)
           else
             (case remove_error w name of
                Some e \<Rightarrow> (Inl e, w1)
              | None \<Rightarrow>
                  (case body of
                     Inl e \<Rightarrow> (Inl e, w1\<lparr>files := (files w1)(name := None)\<rparr>)
                   | Inr res \<Rightarrow> (report out res, w1\<lparr>files := (files w1)(name := None)\<rparr>)))))"
proof -
  have n: "name \<noteq> []" using paths_file_written_fresh [OF assms(4)] by simp
  have b: "is_committing api \<or> paths_file_written w paths name" using assms(4) by simp
  have r: "remove_error (snd (run_child api args v)) = remove_error v" for args v
    by (simp add: run_child_def Let_def split: sum.splits prod.splits)
  show ?thesis
    using assms(3) n r [of "command api r name"
        "w\<lparr>files := (files w)(name \<mapsto> paths_file_contents paths)\<rparr>"]
    by (auto simp: lint_wpt_root_built [OF assms(1,2) b] launch_files_def run_and_cleanup_def
        cleanup_def os_remove_def split: prod.splits sum.splits option.splits)
qed

lemma run_child_cases:
  "run_child api args w =
     (case subprocess_Popen api args (files w) of
        Inl e \<Rightarrow> (Inl e, w\<lparr>popen_calls := popen_calls w @ [(args, files w)]\<rparr>)
      | Inr p \<Rightarrow>
          (case communicate p of
             Inl e \<Rightarrow>
               (Inl e, w\<lparr>popen_calls := popen_calls w @ [(args, files w)],
                          files := files_after p\<rparr>)
           | Inr (out, err) \<Rightarrow>
               (Inr (p, out, err),
                w\<lparr>popen_calls := popen_calls w @ [(args, files w)],
                  files := files_after p\<rparr>)))"
  by (simp add: run_child_def Let_def split: sum.splits prod.splits)

section \<open>The claims about the command and the result\<close>

lemma ex_filtered_paths:
  "filtered_paths ex_api None = Inr [''/r/w/a.html'', ''/r/w/d/c.js'']"
  by code_simp

lemma ex_filtered_paths_commit:
  "filtered_paths ex_commit_api None = Inr [''/r/w/a.html'', ''/r/w/d/c.js'']"
  by code_simp

lemma ex_written:
  "paths_file_written ex_world [''/r/w/a.html'', ''/r/w/d/c.js''] ''/tmp/tmpq0p1''"
  by code_simp

lemma ex_written_locked:
  "paths_file_written ex_locked_world [''/r/w/a.html'', ''/r/w/d/c.js''] ''/tmp/tmpq0p1''"
  by code_simp

lemma ex_base_command:
  "base_command ex_api None =
     [''python3'', ''/r/third_party/wpt_tools/wpt/wpt'',
      ''--venv=/r/third_party/wpt_tools/wpt'', ''--skip-venv-setup'', ''lint'',
      ''--repo-root=/r/w'', ''--ignore-glob=*-expected.txt'', ''--ignore-glob=*.ini'',
      ''--ignore-glob=*DIR_METADATA'', ''--ignore-glob=*OWNERS'',
      ''--ignore-glob=config.tmpl.json'']"
  by code_simp

lemma ex_base_command_commit:
  "base_command ex_commit_api None = base_command ex_api None"
  by (simp add: base_command_def lint_args_def ex_commit_api_def)

lemma ex_not_under:
  "posix_relpath ''/r/w'' ''/r/x/b.cc'' ''/r/w'' = Inr ''../x/b.cc'' \<and>
   \<not> endswith ''/r/x/b.cc'' ''../x/b.cc''"
  by code_simp

text \<open>
  C3.  When no path of the change set passes the filter (for every path
  \<^verbatim>\<open>relpath\<close> returns a relative path and the path does not end with it), the call
  returns the empty list and leaves the state as it was: no \<^verbatim>\<open>Popen\<close> call is
  logged and no file is created, whether \<open>is_committing\<close> is set or not.
\<close>

theorem no_path_under_root_no_child:
  assumes "\<forall>p \<in> set (AbsoluteLocalPaths input_api).
             \<exists>rel. os_path_relpath input_api p
                     (py_or repo_root (PresubmitLocalPath input_api)) = Inr rel \<and>
                   \<not> endswith p rel"
  shows "lint_wpt_root (input_api\<lparr>is_committing := b\<rparr>) output_api repo_root w = (Inr [], w)"
proof -
  have "collect_paths (input_api\<lparr>is_committing := b\<rparr>) root acc xs = Inr acc"
    if "\<forall>p \<in> set xs. \<exists>rel. os_path_relpath input_api p root = Inr rel \<and> \<not> endswith p rel"
    for root acc xs
    using that by (induction xs arbitrary: acc) auto
  from this [OF assms] show ?thesis
    by (simp add: lint_wpt_root_def Let_def)
qed

theorem no_path_under_root_no_child_witness:
  "lint_wpt_root (ex_api\<lparr>AbsoluteLocalPaths := [''/r/x/b.cc''], is_committing := True\<rparr>)
      ex_out None ex_world = (Inr [], ex_world) \<and>
   lint_wpt_root (ex_api\<lparr>AbsoluteLocalPaths := [''/r/x/b.cc''], is_committing := False\<rparr>)
      ex_out None ex_world = (Inr [], ex_world)"
  using no_path_under_root_no_child
      [of "ex_api\<lparr>AbsoluteLocalPaths := [''/r/x/b.cc'']\<rparr>" None True ex_out ex_world]
    no_path_under_root_no_child
      [of "ex_api\<lparr>AbsoluteLocalPaths := [''/r/x/b.cc'']\<rparr>" None False ex_out ex_world]
    ex_not_under
  by (simp add: ex_api_def py_or_def)

text \<open>
  C4.  When committing with a non-empty filtered list, the call makes exactly one
  \<^verbatim>\<open>Popen\<close> call, with the base arguments followed by \<^verbatim>\<open>--all\<close>.  None of
  the arguments after the two executables (whose paths the caller supplies) is a
  \<^verbatim>\<open>--paths-file=\<close> flag (so none of the arguments is one, unless the path of
  an executable itself reads like that flag), and the files at that moment are the files
  before the call: no paths file was created, however many paths passed the filter.
\<close>

theorem commit_command_all:
  assumes "is_committing input_api"
    and "filtered_paths input_api repo_root = Inr paths" and "paths \<noteq> []"
  shows "popen_calls (snd (lint_wpt_root input_api output_api repo_root w)) =
           popen_calls w @ [(base_command input_api repo_root @ [''--all''], files w)] \<and>
         ''--all'' \<in> set (base_command input_api repo_root @ [''--all'']) \<and>
         (\<forall>a \<in> set (drop 2 (base_command input_api repo_root @ [''--all''])).
            \<not> is_paths_file_flag a) \<and>
         (\<not> is_paths_file_flag (python3_executable input_api) \<and>
          \<not> is_paths_file_flag (base_command input_api repo_root ! 1) \<longrightarrow>
            (\<forall>a \<in> set (base_command input_api repo_root @ [''--all'']).
               \<not> is_paths_file_flag a))"
proof -
  have b: "is_committing input_api \<or> paths_file_written w paths []"
    using assms(1) by simp
  have "popen_calls (snd (lint_wpt_root input_api output_api repo_root w)) =
           popen_calls w @ [(base_command input_api repo_root @ [''--all''], files w)]"
    using lint_wpt_root_log [OF assms(2,3) b, of output_api] assms(1)
    by (simp add: command_def launch_files_def)
  moreover have "\<forall>a \<in> set (drop 2 (base_command input_api repo_root @ [''--all''])).
            \<not> is_paths_file_flag a"
    by (simp add: base_command_def lint_args_def Let_def is_paths_file_flag_def startswith_def)
  moreover have "\<forall>a \<in> set (base_command input_api repo_root @ [''--all'']).
               \<not> is_paths_file_flag a"
    if "\<not> is_paths_file_flag (python3_executable input_api)"
      "\<not> is_paths_file_flag (base_command input_api repo_root ! 1)"
    using that
    by (simp add: base_command_def lint_args_def Let_def is_paths_file_flag_def startswith_def)
  ultimately show ?thesis by simp
qed

theorem commit_command_all_witness:
  "popen_calls (snd (lint_wpt_root ex_commit_api ex_out None ex_world)) =
     [([''python3'', ''/r/third_party/wpt_tools/wpt/wpt'',
        ''--venv=/r/third_party/wpt_tools/wpt'', ''--skip-venv-setup'', ''lint'',
        ''--repo-root=/r/w'', ''--ignore-glob=*-expected.txt'', ''--ignore-glob=*.ini'',
        ''--ignore-glob=*DIR_METADATA'', ''--ignore-glob=*OWNERS'',
        ''--ignore-glob=config.tmpl.json'', ''--all''], files ex_world)]"
  using commit_command_all [of ex_commit_api None
      "[''/r/w/a.html'', ''/r/w/d/c.js'']" ex_out ex_world]
    ex_filtered_paths_commit ex_base_command ex_base_command_commit
  by (simp add: ex_world_def ex_commit_api_def)

lemma base_command_no_flag:
  "filter is_paths_file_flag (drop 2 (base_command api r)) = []"
  by (simp add: base_command_def lint_args_def Let_def is_paths_file_flag_def startswith_def)

text \<open>
  C5.  When not committing, with a non-empty filtered list and the paths file created
  under \<open>name\<close> and written: the call makes exactly one \<^verbatim>\<open>Popen\<close> call, with the
  base arguments followed by \<^verbatim>\<open>--paths-file=name\<close>, which is the only
  \<^verbatim>\<open>--paths-file=\<close> flag among the arguments after the two executables (and
  among all arguments, unless the path of an executable itself reads like that flag); at
  that moment the file \<open>name\<close>, which did not exist before the call, holds the filtered
  paths, each followed by a newline; and when the call returns, the file does not exist
  (as it does not whenever \<^verbatim>\<open>os.remove\<close> is not refused).
\<close>

theorem upload_command_paths_file:
  assumes "\<not> is_committing input_api"
    and "filtered_paths input_api repo_root = Inr paths" and "paths \<noteq> []"
    and "paths_file_written w paths name"
  shows "popen_calls (snd (lint_wpt_root input_api output_api repo_root w)) =
           popen_calls w @
             [(base_command input_api repo_root @ [''--paths-file='' @ name],
               (files w)(name \<mapsto> paths_file_contents paths))] \<and>
         filter is_paths_file_flag
           (drop 2 (base_command input_api repo_root @ [''--paths-file='' @ name])) =
           [''--paths-file='' @ name] \<and>
         (\<not> is_paths_file_flag (python3_executable input_api) \<and>
          \<not> is_paths_file_flag (base_command input_api repo_root ! 1) \<longrightarrow>
            filter is_paths_file_flag
              (base_command input_api repo_root @ [''--paths-file='' @ name]) =
              [''--paths-file='' @ name]) \<and>
         files w name = None \<and>
         (fst (lint_wpt_root input_api output_api repo_root w) = Inr res \<longrightarrow>
            files (snd (lint_wpt_root input_api output_api repo_root w)) name = None) \<and>
         (remove_error w name = None \<longrightarrow>
            files (snd (lint_wpt_root input_api output_api repo_root w)) name = None)"
proof -
  have b: "is_committing input_api \<or> paths_file_written w paths name"
    using assms(4) by simp
  have "popen_calls (snd (lint_wpt_root input_api output_api repo_root w)) =
           popen_calls w @
             [(base_command input_api repo_root @ [''--paths-file='' @ name],
               (files w)(name \<mapsto> paths_file_contents paths))]"
    using lint_wpt_root_log [OF assms(2,3) b, of output_api] assms(1)
    by (simp add: command_def launch_files_def)
  moreover have "length (base_command input_api repo_root) = 11"
    by (simp add: base_command_def lint_args_def Let_def)
  then have "filter is_paths_file_flag
           (drop 2 (base_command input_api repo_root @ [''--paths-file='' @ name])) =
           [''--paths-file='' @ name]"
    using base_command_no_flag [of input_api repo_root]
    by (simp add: is_paths_file_flag_def startswith_def)
  moreover have "filter is_paths_file_flag
              (base_command input_api repo_root @ [''--paths-file='' @ name]) =
              [''--paths-file='' @ name]"
    if "\<not> is_paths_file_flag (python3_executable input_api)"
      "\<not> is_paths_file_flag (base_command input_api repo_root ! 1)"
    using that
    by (simp add: base_command_def lint_args_def Let_def is_paths_file_flag_def startswith_def)
  moreover have "files w name = None"
    using paths_file_written_fresh [OF assms(4)] by simp
  moreover have "files (snd (lint_wpt_root input_api output_api repo_root w)) name = None"
    if "fst (lint_wpt_root input_api output_api repo_root w) = Inr res"
    using that
    by (auto simp: lint_wpt_root_upload [OF assms(2,3,1,4)]
        split: prod.splits sum.splits option.splits if_splits)
  moreover have "files (snd (lint_wpt_root input_api output_api repo_root w)) name = None"
    if "remove_error w name = None"
    using that
    by (auto simp: lint_wpt_root_upload [OF assms(2,3,1,4)]
        split: prod.splits sum.splits option.splits if_splits)
  ultimately show ?thesis by simp
qed

theorem upload_command_paths_file_witness:
  "popen_calls (snd (lint_wpt_root ex_api ex_out None ex_world)) =
     [([''python3'', ''/r/third_party/wpt_tools/wpt/wpt'',
        ''--venv=/r/third_party/wpt_tools/wpt'', ''--skip-venv-setup'', ''lint'',
        ''--repo-root=/r/w'', ''--ignore-glob=*-expected.txt'', ''--ignore-glob=*.ini'',
        ''--ignore-glob=*DIR_METADATA'', ''--ignore-glob=*OWNERS'',
        ''--ignore-glob=config.tmpl.json'', ''--paths-file=/tmp/tmpq0p1''],
       (files ex_world)(''/tmp/tmpq0p1'' \<mapsto>
          ''/r/w/a.html'' @ [CHR 0x0A] @ ''/r/w/d/c.js'' @ [CHR 0x0A]))] \<and>
   files ex_world ''/tmp/tmpq0p1'' = None \<and>
   files (snd (lint_wpt_root ex_api ex_out None ex_world)) ''/tmp/tmpq0p1'' = None"
  using upload_command_paths_file [of ex_api None "[''/r/w/a.html'', ''/r/w/d/c.js'']"
      ex_world "''/tmp/tmpq0p1''" ex_out]
    ex_filtered_paths ex_written ex_base_command
  by (simp add: ex_api_def ex_world_def paths_file_contents_def)

text \<open>
  C2, as amended.  Whenever the call has created and written the paths file (not
  committing, non-empty filtered list), the file is there when \<^verbatim>\<open>Popen\<close> is called,
  and whatever \<^verbatim>\<open>Popen\<close> and the child do (raise, exit with 0, exit with another
  code) the file is not there when the call is over, unless \<^verbatim>\<open>os.remove\<close> is
  refused and the call raises the exception of that refusal.
\<close>

theorem paths_file_removed:
  assumes "\<not> is_committing input_api"
    and "filtered_paths input_api repo_root = Inr paths" and "paths \<noteq> []"
    and "paths_file_written w paths name"
  shows "snd (last (popen_calls (snd (lint_wpt_root input_api output_api repo_root w)))) name
           \<noteq> None \<and>
         (remove_error w name = None \<longrightarrow>
            files (snd (lint_wpt_root input_api output_api repo_root w)) name = None) \<and>
         (files (snd (lint_wpt_root input_api output_api repo_root w)) name = None \<or>
          (\<exists>e. remove_error w name = Some e \<and>
                fst (lint_wpt_root input_api output_api repo_root w) = Inl e))"
proof -
  have b: "is_committing input_api \<or> paths_file_written w paths name"
    using assms(4) by simp
  have "snd (last (popen_calls (snd (lint_wpt_root input_api output_api repo_root w)))) name
           \<noteq> None"
    using lint_wpt_root_log [OF assms(2,3) b, of output_api] assms(1)
    by (simp add: launch_files_def)
  moreover have "files (snd (lint_wpt_root input_api output_api repo_root w)) name = None \<or>
          (\<exists>e. remove_error w name = Some e \<and>
                fst (lint_wpt_root input_api output_api repo_root w) = Inl e)"
    by (auto simp: lint_wpt_root_upload [OF assms(2,3,1,4)]
        split: prod.splits sum.splits option.splits if_splits)
  ultimately show ?thesis by auto
qed

lemma ex_filtered_paths_ok:
  "filtered_paths ex_clean_api None = Inr [''/r/w/a.html'', ''/r/w/d/c.js'']"
  by code_simp

lemma ex_filtered_paths_raise:
  "filtered_paths ex_raise_api None = Inr [''/r/w/a.html'', ''/r/w/d/c.js'']"
  by code_simp

lemma ex_remove_error: "remove_error ex_world ''/tmp/tmpq0p1'' = None"
  by (simp add: ex_world_def)

theorem paths_file_removed_witness:
  "files (snd (lint_wpt_root ex_api ex_out None ex_world)) ''/tmp/tmpq0p1'' = None \<and>
   files (snd (lint_wpt_root ex_clean_api ex_out None ex_world)) ''/tmp/tmpq0p1'' = None \<and>
   files (snd (lint_wpt_root ex_raise_api ex_out None ex_world)) ''/tmp/tmpq0p1'' = None"
  using paths_file_removed [of ex_api None "[''/r/w/a.html'', ''/r/w/d/c.js'']"
      ex_world "''/tmp/tmpq0p1''" ex_out]
    paths_file_removed [of ex_clean_api None
      "[''/r/w/a.html'', ''/r/w/d/c.js'']" ex_world "''/tmp/tmpq0p1''" ex_out]
    paths_file_removed [of ex_raise_api None
      "[''/r/w/a.html'', ''/r/w/d/c.js'']" ex_world "''/tmp/tmpq0p1''" ex_out]
    ex_filtered_paths ex_filtered_paths_ok ex_filtered_paths_raise ex_written ex_remove_error
  by (simp add: ex_api_def ex_clean_api_def ex_raise_api_def)

text \<open>
  C2 as stated fails.  When the first \<^verbatim>\<open>f.write\<close> raises, the call raises that
  exception before it reaches the \<^verbatim>\<open>try\<close>: \<^verbatim>\<open>Popen\<close> is not called and the
  empty paths file stays.  And when the linter exits with 0 and \<^verbatim>\<open>os.remove\<close> is
  refused, the call raises the \<^verbatim>\<open>PermissionError\<close> and the paths file stays.
\<close>

theorem paths_file_left_behind:
  "fst (lint_wpt_root ex_api ex_out None ex_unwritable_world) = Inl UnicodeEncodeError \<and>
   map fst (popen_calls (snd (lint_wpt_root ex_api ex_out None ex_unwritable_world))) = [] \<and>
   files (snd (lint_wpt_root ex_api ex_out None ex_unwritable_world)) ''/tmp/tmpq0p1'' =
     Some [] \<and>
   fst (lint_wpt_root ex_clean_api ex_out None ex_locked_world) =
     Inl (PermissionError ''/tmp/tmpq0p1'') \<and>
   files (snd (lint_wpt_root ex_clean_api ex_out None ex_locked_world)) ''/tmp/tmpq0p1'' =
     Some (''/r/w/a.html'' @ [CHR 0x0A] @ ''/r/w/d/c.js'' @ [CHR 0x0A])"
  by code_simp

text \<open>
  C7.  Every invocation that builds a command passes exactly this argument list to
  \<^verbatim>\<open>Popen\<close>, once: the interpreter, the wpt executable, \<^verbatim>\<open>--venv=\<close>, \<^verbatim>\<open>--skip-venv-setup\<close>,
  \<^verbatim>\<open>lint\<close>, \<^verbatim>\<open>--repo-root=\<close>, the five ignore globs in their order, and one
  last argument, which is \<^verbatim>\<open>--all\<close> or a \<^verbatim>\<open>--paths-file=\<close> flag and not both.
\<close>

theorem command_shape:
  assumes "filtered_paths input_api repo_root = Inr paths" and "paths \<noteq> []"
    and "is_committing input_api \<or> paths_file_written w paths name"
  shows "let wpt_root = os_path_join input_api (RepositoryRoot input_api)
                          [''third_party'', ''wpt_tools'', ''wpt''];
             target = (if is_committing input_api then ''--all''
                       else ''--paths-file='' @ name)
         in map fst (drop (length (popen_calls w))
                  (popen_calls (snd (lint_wpt_root input_api output_api repo_root w)))) =
              [[python3_executable input_api,
                os_path_join input_api wpt_root [''wpt''],
                ''--venv='' @ wpt_root,
                ''--skip-venv-setup'',
                ''lint'',
                ''--repo-root='' @ py_or repo_root (PresubmitLocalPath input_api),
                ''--ignore-glob=*-expected.txt'',
                ''--ignore-glob=*.ini'',
                ''--ignore-glob=*DIR_METADATA'',
                ''--ignore-glob=*OWNERS'',
                ''--ignore-glob=config.tmpl.json'',
                target]] \<and>
            (target = ''--all'') \<noteq> is_paths_file_flag target"
  using lint_wpt_root_log [OF assms, of output_api]
  by (simp add: command_def base_command_def lint_args_def Let_def is_paths_file_flag_def
      startswith_def)

lemma ex_api_fields:
  "python3_executable ex_api = ''python3''" "is_committing ex_api = False"
  "PresubmitLocalPath ex_api = ''/r/w''" "RepositoryRoot ex_api = ''/r''"
  by (simp_all add: ex_api_def)

lemma ex_wpt_root:
  "os_path_join ex_api ''/r'' [''third_party'', ''wpt_tools'', ''wpt''] =
     ''/r/third_party/wpt_tools/wpt''"
  "os_path_join ex_api ''/r/third_party/wpt_tools/wpt'' [''wpt''] =
     ''/r/third_party/wpt_tools/wpt/wpt''"
  by code_simp+

theorem command_shape_witness:
  "map fst (popen_calls (snd (lint_wpt_root ex_api ex_out None ex_world))) =
     [[''python3'', ''/r/third_party/wpt_tools/wpt/wpt'',
       ''--venv=/r/third_party/wpt_tools/wpt'', ''--skip-venv-setup'', ''lint'',
       ''--repo-root=/r/w'', ''--ignore-glob=*-expected.txt'', ''--ignore-glob=*.ini'',
       ''--ignore-glob=*DIR_METADATA'', ''--ignore-glob=*OWNERS'',
       ''--ignore-glob=config.tmpl.json'', ''--paths-file=/tmp/tmpq0p1'']] \<and>
   is_paths_file_flag ''--paths-file=/tmp/tmpq0p1''"
  using command_shape [of ex_api None "[''/r/w/a.html'', ''/r/w/d/c.js'']"
      ex_world "''/tmp/tmpq0p1''" ex_out]
    ex_filtered_paths ex_written
  by (simp add: ex_api_fields ex_wpt_root ex_world_def py_or_def is_paths_file_flag_def
      startswith_def)

text \<open>
  C9.  The root that a call works with is \<^verbatim>\<open>PresubmitLocalPath()\<close> when the
  argument \<open>repo_root\<close> is \<^verbatim>\<open>None\<close> or the empty string, and the argument itself
  when it is a non-empty string.  That root is what the filter takes the relative paths
  from (an exception of the filter is the call's exception, an empty filter result ends
  the call) and what the command passes as \<^verbatim>\<open>--repo-root=\<close>.  The calls with
  \<^verbatim>\<open>None\<close>, with the empty string and with \<^verbatim>\<open>PresubmitLocalPath()\<close> as the
  argument are the same call.
\<close>

theorem root_is_argument_or_local_path:
  assumes "(repo_root = None \<or> repo_root = Some []) \<and> root = PresubmitLocalPath input_api \<or>
           repo_root = Some root \<and> root \<noteq> []"
  shows "(collect_paths input_api root [] (AbsoluteLocalPaths input_api) = Inl e \<longrightarrow>
            lint_wpt_root input_api output_api repo_root w = (Inl e, w)) \<and>
         (collect_paths input_api root [] (AbsoluteLocalPaths input_api) = Inr [] \<longrightarrow>
            lint_wpt_root input_api output_api repo_root w = (Inr [], w)) \<and>
         (collect_paths input_api root [] (AbsoluteLocalPaths input_api) = Inr paths \<and>
          paths \<noteq> [] \<and> (is_committing input_api \<or> paths_file_written w paths name) \<longrightarrow>
            map fst (drop (length (popen_calls w))
              (popen_calls (snd (lint_wpt_root input_api output_api repo_root w)))) =
              [[python3_executable input_api,
                os_path_join input_api
                  (os_path_join input_api (RepositoryRoot input_api)
                     [''third_party'', ''wpt_tools'', ''wpt'']) [''wpt''],
                ''--venv='' @ os_path_join input_api (RepositoryRoot input_api)
                     [''third_party'', ''wpt_tools'', ''wpt''],
                ''--skip-venv-setup'',
                ''lint'',
                ''--repo-root='' @ root,
                ''--ignore-glob=*-expected.txt'',
                ''--ignore-glob=*.ini'',
                ''--ignore-glob=*DIR_METADATA'',
                ''--ignore-glob=*OWNERS'',
                ''--ignore-glob=config.tmpl.json'',
                if is_committing input_api then ''--all'' else ''--paths-file='' @ name]]) \<and>
         lint_wpt_root input_api output_api (Some []) w =
           lint_wpt_root input_api output_api None w \<and>
         lint_wpt_root input_api output_api (Some (PresubmitLocalPath input_api)) w =
           lint_wpt_root input_api output_api None w"
proof -
  have root: "py_or repo_root (PresubmitLocalPath input_api) = root"
    using assms by (auto simp: py_or_def)
  have 1: "lint_wpt_root input_api output_api repo_root w = (Inl e, w)"
    if "collect_paths input_api root [] (AbsoluteLocalPaths input_api) = Inl e"
    using that by (simp add: lint_wpt_root_def root)
  have 2: "lint_wpt_root input_api output_api repo_root w = (Inr [], w)"
    if "collect_paths input_api root [] (AbsoluteLocalPaths input_api) = Inr []"
    using that by (simp add: lint_wpt_root_def root)
  have 3: "map fst (drop (length (popen_calls w))
              (popen_calls (snd (lint_wpt_root input_api output_api repo_root w)))) =
              [base_command input_api repo_root @
                 [if is_committing input_api then ''--all'' else ''--paths-file='' @ name]]"
    if "collect_paths input_api root [] (AbsoluteLocalPaths input_api) = Inr paths"
      "paths \<noteq> []" "is_committing input_api \<or> paths_file_written w paths name"
  proof -
    have "filtered_paths input_api repo_root = Inr paths"
      using that(1) by (simp add: filtered_paths_def root)
    from lint_wpt_root_log [OF this that(2,3), of output_api]
    show ?thesis by (simp add: command_def)
  qed
  have 4: "lint_wpt_root input_api output_api (Some []) w =
           lint_wpt_root input_api output_api None w"
    by (simp add: lint_wpt_root_def py_or_def)
  have 5: "lint_wpt_root input_api output_api (Some (PresubmitLocalPath input_api)) w =
           lint_wpt_root input_api output_api None w"
    by (simp add: lint_wpt_root_def py_or_def)
  show ?thesis
    using 1 2 3 4 5 by (simp add: base_command_def lint_args_def Let_def root)
qed

lemma ex_collect_local:
  "collect_paths ex_api ''/r/w'' [] (AbsoluteLocalPaths ex_api) =
     Inr [''/r/w/a.html'', ''/r/w/d/c.js'']"
  by code_simp

lemma ex_collect_other:
  "collect_paths ex_api ''/r/x'' [] (AbsoluteLocalPaths ex_api) = Inr [''/r/x/b.cc'']"
  by code_simp

lemma ex_written_other: "paths_file_written ex_world [''/r/x/b.cc''] ''/tmp/tmpq0p1''"
  by code_simp

theorem root_is_argument_or_local_path_witness:
  "map fst (popen_calls (snd (lint_wpt_root ex_api ex_out None ex_world))) =
     [[''python3'', ''/r/third_party/wpt_tools/wpt/wpt'',
       ''--venv=/r/third_party/wpt_tools/wpt'', ''--skip-venv-setup'', ''lint'',
       ''--repo-root=/r/w'', ''--ignore-glob=*-expected.txt'', ''--ignore-glob=*.ini'',
       ''--ignore-glob=*DIR_METADATA'', ''--ignore-glob=*OWNERS'',
       ''--ignore-glob=config.tmpl.json'', ''--paths-file=/tmp/tmpq0p1'']] \<and>
   map fst (popen_calls (snd (lint_wpt_root ex_api ex_out (Some []) ex_world))) =
     [[''python3'', ''/r/third_party/wpt_tools/wpt/wpt'',
       ''--venv=/r/third_party/wpt_tools/wpt'', ''--skip-venv-setup'', ''lint'',
       ''--repo-root=/r/w'', ''--ignore-glob=*-expected.txt'', ''--ignore-glob=*.ini'',
       ''--ignore-glob=*DIR_METADATA'', ''--ignore-glob=*OWNERS'',
       ''--ignore-glob=config.tmpl.json'', ''--paths-file=/tmp/tmpq0p1'']] \<and>
   map fst (popen_calls (snd (lint_wpt_root ex_api ex_out (Some ''/r/x'') ex_world))) =
     [[''python3'', ''/r/third_party/wpt_tools/wpt/wpt'',
       ''--venv=/r/third_party/wpt_tools/wpt'', ''--skip-venv-setup'', ''lint'',
       ''--repo-root=/r/x'', ''--ignore-glob=*-expected.txt'', ''--ignore-glob=*.ini'',
       ''--ignore-glob=*DIR_METADATA'', ''--ignore-glob=*OWNERS'',
       ''--ignore-glob=config.tmpl.json'', ''--paths-file=/tmp/tmpq0p1'']]"
  using root_is_argument_or_local_path [of None "''/r/w''" ex_api _
      ex_out ex_world "[''/r/w/a.html'', ''/r/w/d/c.js'']" "''/tmp/tmpq0p1''"]
    root_is_argument_or_local_path [of "Some []" "''/r/w''" ex_api _
      ex_out ex_world "[''/r/w/a.html'', ''/r/w/d/c.js'']" "''/tmp/tmpq0p1''"]
    root_is_argument_or_local_path [of "Some ''/r/x''" "''/r/x''" ex_api _
      ex_out ex_world "[''/r/x/b.cc'']" "''/tmp/tmpq0p1''"]
    ex_collect_local ex_collect_other ex_written ex_written_other
  by (simp add: ex_api_fields ex_wpt_root ex_world_def)

lemma ex_filtered_paths_vanish:
  "filtered_paths ex_vanish_api None = Inr [''/r/w/a.html'', ''/r/w/d/c.js'']"
  by code_simp

text \<open>
  C8, as amended.  With the paths file written, when \<^verbatim>\<open>Popen\<close> or
  \<^verbatim>\<open>communicate()\<close> raises, the removal of the paths file is attempted.  When it
  goes through, the file is gone and the call raises the exception of the process
  execution (after a failed \<^verbatim>\<open>Popen\<close> the files are again what they were before
  the call).  When the removal fails, because the operating system refuses it or
  because the file is gone already, the call raises the exception of the removal in
  place of the one of the process execution: the failure is not suppressed.
\<close>

theorem exception_propagates_after_cleanup:
  assumes "\<not> is_committing input_api"
    and "filtered_paths input_api repo_root = Inr paths" and "paths \<noteq> []"
    and "paths_file_written w paths name"
  shows "let args = base_command input_api repo_root @ [''--paths-file='' @ name];
             fs = (files w)(name \<mapsto> paths_file_contents paths);
             result = lint_wpt_root input_api output_api repo_root w
         in (subprocess_Popen input_api args fs = Inl e \<and> remove_error w name = None \<longrightarrow>
               fst result = Inl e \<and> files (snd result) = files w) \<and>
            (subprocess_Popen input_api args fs = Inl e \<and> remove_error w name = Some e' \<longrightarrow>
               fst result = Inl e' \<and> files (snd result) = fs) \<and>
            (subprocess_Popen input_api args fs = Inr p \<and> communicate p = Inl e \<and>
             files_after p name \<noteq> None \<and> remove_error w name = None \<longrightarrow>
               fst result = Inl e \<and> files (snd result) = (files_after p)(name := None)) \<and>
            (subprocess_Popen input_api args fs = Inr p \<and> files_after p name \<noteq> None \<and>
             remove_error w name = Some e' \<longrightarrow>
               fst result = Inl e' \<and> files (snd result) = files_after p) \<and>
            (subprocess_Popen input_api args fs = Inr p \<and> files_after p name = None \<longrightarrow>
               fst result = Inl (FileNotFoundError name) \<and>
               files (snd result) = files_after p)"
proof -
  have n: "files w name = None"
    using paths_file_written_fresh [OF assms(4)] by simp
  have f: "(files w)(name := None) = files w"
    using n by (auto simp: fun_eq_iff)
  have c: "command input_api repo_root name =
      base_command input_api repo_root @ [''--paths-file='' @ name]"
    using assms(1) by (simp add: command_def)
  show ?thesis
    unfolding Let_def lint_wpt_root_upload [OF assms(2,3,1,4)] run_child_cases c
    by (auto simp: f split: sum.splits prod.splits)
qed

theorem exception_propagates_after_cleanup_witness:
  "fst (lint_wpt_root ex_raise_api ex_out None ex_world) =
     Inl (OSError ''exec format error'') \<and>
   files (snd (lint_wpt_root ex_raise_api ex_out None ex_world)) = files ex_world \<and>
   fst (lint_wpt_root ex_vanish_api ex_out None ex_world) =
     Inl (FileNotFoundError ''/tmp/tmpq0p1'') \<and>
   fst (lint_wpt_root ex_raise_api ex_out None ex_locked_world) =
     Inl (PermissionError ''/tmp/tmpq0p1'')"
  using exception_propagates_after_cleanup
      [of ex_raise_api None "[''/r/w/a.html'', ''/r/w/d/c.js'']"
        ex_world "''/tmp/tmpq0p1''" ex_out "OSError ''exec format error''"]
    exception_propagates_after_cleanup
      [of ex_vanish_api None "[''/r/w/a.html'', ''/r/w/d/c.js'']"
        ex_world "''/tmp/tmpq0p1''" ex_out _ _
        "\<lparr>communicate = Inl (OSError ''broken pipe''), returncode = 0, files_after = Map.empty\<rparr>"]
    exception_propagates_after_cleanup
      [of ex_raise_api None "[''/r/w/a.html'', ''/r/w/d/c.js'']"
        ex_locked_world "''/tmp/tmpq0p1''" ex_out "OSError ''exec format error''"
        "PermissionError ''/tmp/tmpq0p1''"]
    ex_filtered_paths_raise ex_filtered_paths_vanish ex_written ex_written_locked
  by (simp add: ex_api_def ex_raise_api_def ex_vanish_api_def ex_raise_def ex_vanish_def
      ex_world_def ex_locked_world_def Let_def)

text \<open>
  C8 as stated fails: the exception of the process execution does not always reach the
  caller.  When \<^verbatim>\<open>communicate()\<close> raises an \<^verbatim>\<open>OSError\<close> and the child has
  deleted the paths file, the call raises the \<^verbatim>\<open>FileNotFoundError\<close> of
  \<^verbatim>\<open>os.remove\<close>; when \<^verbatim>\<open>Popen\<close> raises an \<^verbatim>\<open>OSError\<close> and
  \<^verbatim>\<open>os.remove\<close> is refused, the call raises the \<^verbatim>\<open>PermissionError\<close>.
\<close>

theorem deletion_failure_replaces_exception:
  "map_sum id communicate
     (subprocess_Popen ex_vanish_api (command ex_vanish_api None ''/tmp/tmpq0p1'')
        ((files ex_world)(''/tmp/tmpq0p1'' \<mapsto>
           paths_file_contents [''/r/w/a.html'', ''/r/w/d/c.js'']))) =
     Inr (Inl (OSError ''broken pipe'')) \<and>
   fst (lint_wpt_root ex_vanish_api ex_out None ex_world) =
     Inl (FileNotFoundError ''/tmp/tmpq0p1'') \<and>
   map_sum id communicate
     (subprocess_Popen ex_raise_api (command ex_raise_api None ''/tmp/tmpq0p1'')
        ((files ex_locked_world)(''/tmp/tmpq0p1'' \<mapsto>
           paths_file_contents [''/r/w/a.html'', ''/r/w/d/c.js'']))) =
     Inl (OSError ''exec format error'') \<and>
   fst (lint_wpt_root ex_raise_api ex_out None ex_locked_world) =
     Inl (PermissionError ''/tmp/tmpq0p1'')"
  by code_simp

lemma lint_wpt_root_report:
  assumes "filtered_paths api r = Inr paths" and "paths \<noteq> []"
    and "is_committing api \<or> paths_file_written w paths name"
    and "subprocess_Popen api (command api r name) (launch_files api paths name w) = Inr p"
    and "communicate p = Inr (out, err)"
    and "is_committing api \<or> files_after p name \<noteq> None \<and> remove_error w name = None"
  shows "fst (lint_wpt_root api output_api r w) = report output_api (p, out, err)"
proof (cases "is_committing api")
  case True
  then show ?thesis
    using assms(4,5)
    by (simp add: lint_wpt_root_built [OF assms(1,2,3)] run_and_cleanup_def run_child_cases
        cleanup_def)
next
  case False
  then have "paths_file_written w paths name" using assms(3) by simp
  from lint_wpt_root_upload [OF assms(1,2) False this, of output_api]
  show ?thesis
    using False assms(4,5,6) by (auto simp: run_child_cases launch_files_def)
qed

text \<open>
  C1, as amended.  When the child is launched, \<^verbatim>\<open>communicate()\<close> returns and the
  cleanup does not raise (committing, or the paths file is still there and its removal
  is not refused): the call returns
  the empty list exactly when the exit code is 0, whatever the child printed; with another
  exit code and output that decodes, it returns one error entry with the message
  \<^verbatim>\<open>`wpt lint` failed:\<close> and the decoded stdout followed by stderr as its long
  text; with another exit code and output that does not decode, it raises the decoder's
  exception.
\<close>

theorem exit_code_decides_result:
  assumes "filtered_paths input_api repo_root = Inr paths" and "paths \<noteq> []"
    and "is_committing input_api \<or> paths_file_written w paths name"
    and "subprocess_Popen input_api (command input_api repo_root name)
           (launch_files input_api paths name w) = Inr p"
    and "communicate p = Inr (out, err)"
    and "is_committing input_api \<or>
         files_after p name \<noteq> None \<and> remove_error w name = None"
  shows "(fst (lint_wpt_root input_api output_api repo_root w) = Inr [] \<longleftrightarrow>
            returncode p = 0) \<and>
         (returncode p \<noteq> 0 \<and> decode (out @ err) = Inr long_text \<longrightarrow>
            fst (lint_wpt_root input_api output_api repo_root w) =
              Inr [PresubmitError output_api ''`wpt lint` failed:'' long_text]) \<and>
         (returncode p \<noteq> 0 \<and> decode (out @ err) = Inl e \<longrightarrow>
            fst (lint_wpt_root input_api output_api repo_root w) = Inl e)"
  by (auto simp: lint_wpt_root_report [OF assms] report_def split: sum.splits)

lemma ex_filtered_paths_binary:
  "filtered_paths ex_binary_api None = Inr [''/r/w/a.html'', ''/r/w/d/c.js'']"
  by code_simp

theorem exit_code_decides_result_witness:
  "fst (lint_wpt_root ex_api ex_out None ex_world) =
     Inr [(''`wpt lint` failed:'', ''E1warn'')] \<and>
   fst (lint_wpt_root ex_clean_api ex_out None ex_world) = Inr []"
  using exit_code_decides_result
      [of ex_api None "[''/r/w/a.html'', ''/r/w/d/c.js'']" ex_world "''/tmp/tmpq0p1''"
        "\<lparr>communicate = Inr (''E1'', ''warn''), returncode = 1,
          files_after = (files ex_world)(''/tmp/tmpq0p1'' \<mapsto>
            paths_file_contents [''/r/w/a.html'', ''/r/w/d/c.js''])\<rparr>"
        "''E1''" "''warn''" ex_out "''E1warn''"]
    exit_code_decides_result
      [of ex_clean_api None "[''/r/w/a.html'', ''/r/w/d/c.js'']" ex_world "''/tmp/tmpq0p1''"
        "\<lparr>communicate = Inr (''note'', []), returncode = 0,
          files_after = (files ex_world)(''/tmp/tmpq0p1'' \<mapsto>
            paths_file_contents [''/r/w/a.html'', ''/r/w/d/c.js''])\<rparr>"
        "''note''" "[]" ex_out]
    ex_filtered_paths ex_filtered_paths_ok ex_written ex_remove_error
  by (simp add: ex_api_def ex_clean_api_def ex_child_def ex_out_def launch_files_def
      decode_def byte_in_def)

text \<open>
  C1 as stated fails: a child that exits with 1 after printing the byte \<^verbatim>\<open>0xFF\<close>
  makes the call raise \<^verbatim>\<open>UnicodeDecodeError\<close>; there is no result with an error
  entry.
\<close>

theorem invalid_utf8_output_raises:
  "subprocess_Popen ex_binary_api (command ex_binary_api None ''/tmp/tmpq0p1'')
     ((files ex_world)(''/tmp/tmpq0p1'' \<mapsto>
        paths_file_contents [''/r/w/a.html'', ''/r/w/d/c.js''])) =
     Inr \<lparr>communicate = Inr ([CHR 0xFF], ''warn''), returncode = 1,
          files_after = (files ex_world)(''/tmp/tmpq0p1'' \<mapsto>
            paths_file_contents [''/r/w/a.html'', ''/r/w/d/c.js''])\<rparr> \<and>
   fst (lint_wpt_root ex_binary_api ex_out None ex_world) = Inl UnicodeDecodeError"
  using lint_wpt_root_report
      [of ex_binary_api None "[''/r/w/a.html'', ''/r/w/d/c.js'']" ex_world "''/tmp/tmpq0p1''"
        "\<lparr>communicate = Inr ([CHR 0xFF], ''warn''), returncode = 1,
          files_after = (files ex_world)(''/tmp/tmpq0p1'' \<mapsto>
            paths_file_contents [''/r/w/a.html'', ''/r/w/d/c.js''])\<rparr>"
        "[CHR 0xFF]" "''warn''" ex_out]
    ex_filtered_paths_binary ex_written ex_remove_error
  by (simp add: ex_api_def ex_binary_api_def ex_child_def launch_files_def command_def
      report_def decode_def byte_in_def)

lemma lines_of_line:
  "CHR 0x0A \<notin> set p \<Longrightarrow> lines_of (p @ CHR 0x0A # s) = p # lines_of s"
  by (induction p) auto

lemma lines_of_contents:
  "\<forall>p \<in> set paths. CHR 0x0A \<notin> set p \<Longrightarrow> lines_of (paths_file_contents paths) = paths"
  by (induction paths) (simp_all add: paths_file_contents_def lines_of_line)

lemma count_list_filter_le: "count_list (filter P xs) x \<le> count_list xs x"
  by (induction xs) auto

text \<open>
  C10.  The filtered list is a subsequence of \<^verbatim>\<open>AbsoluteLocalPaths()\<close>: the order is
  kept, no path occurs more often than in the change set, and a change set without
  duplicates gives a filtered list without duplicates.  The paths file that the child
  is started on holds the filtered paths in that order, one per line (the lines are the paths whenever no
  path contains a newline).
\<close>

theorem filter_keeps_order:
  assumes "filtered_paths input_api repo_root = Inr paths"
  shows "subseq paths (AbsoluteLocalPaths input_api) \<and>
         (\<forall>p. count_list paths p \<le> count_list (AbsoluteLocalPaths input_api) p) \<and>
         (distinct (AbsoluteLocalPaths input_api) \<longrightarrow> distinct paths) \<and>
         (\<not> is_committing input_api \<and> paths \<noteq> [] \<and> paths_file_written w paths name \<longrightarrow>
            snd (last (popen_calls (snd (lint_wpt_root input_api output_api repo_root w)))) name =
              Some (paths_file_contents paths)) \<and>
         ((\<forall>p \<in> set paths. CHR 0x0A \<notin> set p) \<longrightarrow>
            lines_of (paths_file_contents paths) = paths)"
proof -
  let ?root = "py_or repo_root (PresubmitLocalPath input_api)"
  have f: "paths = filter (keeps input_api ?root) (AbsoluteLocalPaths input_api)"
    using collect_paths_filter [of input_api ?root "[]" "AbsoluteLocalPaths input_api" paths]
      assms by (simp add: filtered_paths_def)
  have 1: "subseq paths (AbsoluteLocalPaths input_api)"
    by (simp add: f)
  have 2: "\<forall>p. count_list paths p \<le> count_list (AbsoluteLocalPaths input_api) p"
    by (simp add: f count_list_filter_le)
  have 3: "distinct (AbsoluteLocalPaths input_api) \<longrightarrow> distinct paths"
    by (simp add: f)
  have 4: "snd (last (popen_calls (snd (lint_wpt_root input_api output_api repo_root w)))) name =
              Some (paths_file_contents paths)"
    if "\<not> is_committing input_api" "paths \<noteq> []" "paths_file_written w paths name"
    using lint_wpt_root_log [OF assms that(2), of w name output_api] that(1,3)
    by (simp add: launch_files_def)
  show ?thesis
    using 1 2 3 4 lines_of_contents [of paths] by blast
qed

theorem filter_keeps_order_witness:
  "subseq [''/r/w/a.html'', ''/r/w/d/c.js''] (AbsoluteLocalPaths ex_api) \<and>
   distinct [''/r/w/a.html'', ''/r/w/d/c.js''] \<and>
   snd (last (popen_calls (snd (lint_wpt_root ex_api ex_out None ex_world)))) ''/tmp/tmpq0p1'' =
     Some (''/r/w/a.html'' @ [CHR 0x0A] @ ''/r/w/d/c.js'' @ [CHR 0x0A]) \<and>
   lines_of (''/r/w/a.html'' @ [CHR 0x0A] @ ''/r/w/d/c.js'' @ [CHR 0x0A]) =
     [''/r/w/a.html'', ''/r/w/d/c.js'']"
  using filter_keeps_order [of ex_api None "[''/r/w/a.html'', ''/r/w/d/c.js'']" ex_world
      "''/tmp/tmpq0p1''" ex_out]
    ex_filtered_paths ex_written
  by (simp add: ex_api_def paths_file_contents_def)

section \<open>The filter and the root directory\<close>

lemma split_sep_nonempty: "split_sep s \<noteq> []"
  by (induction s) (auto split: list.splits)

lemma split_sep_no_slash: "CHR ''/'' \<notin> set c \<Longrightarrow> split_sep c = [c]"
  by (induction c) auto

lemma split_sep_append_slash: "split_sep (a @ CHR ''/'' # b) = split_sep a @ split_sep b"
  by (induction a) (auto split: list.splits simp: split_sep_nonempty)

lemma split_sep_join_sep:
  "cs \<noteq> [] \<Longrightarrow> \<forall>c \<in> set cs. CHR ''/'' \<notin> set c \<Longrightarrow> split_sep (join_sep cs) = cs"
proof (induction cs rule: join_sep.induct)
  case 1
  then show ?case by simp
next
  case (2 c)
  then show ?case by (simp add: split_sep_no_slash)
next
  case (3 c d cs)
  then show ?case by (simp add: split_sep_append_slash split_sep_no_slash)
qed

lemma parts_of_joined:
  assumes "\<forall>c \<in> set cs. c \<noteq> [] \<and> CHR ''/'' \<notin> set c"
  shows "filter (\<lambda>x. x \<noteq> []) (split_sep (CHR ''/'' # join_sep cs)) = cs"
proof (cases "cs = []")
  case True
  then show ?thesis by simp
next
  case False
  have "filter (\<lambda>x. x \<noteq> []) cs = cs" using assms by (simp add: filter_id_conv)
  then show ?thesis using False assms by (simp add: split_sep_join_sep)
qed

lemma norm_comps_plain:
  "\<forall>c \<in> set cs. c \<noteq> [] \<and> c \<noteq> ''.'' \<and> c \<noteq> ''..'' \<Longrightarrow>
   norm_comps k acc cs = acc @ cs"
  by (induction cs arbitrary: acc) auto

lemma join_sep_Cons: "cs \<noteq> [] \<Longrightarrow> join_sep (c # cs) = c @ CHR ''/'' # join_sep cs"
  by (cases cs) auto

lemma join_sep_hd:
  "cs \<noteq> [] \<Longrightarrow> hd cs \<noteq> [] \<Longrightarrow> join_sep cs \<noteq> [] \<and> hd (join_sep cs) = hd (hd cs)"
  by (induction cs rule: join_sep.induct) auto

lemma normpath_normal:
  assumes "\<forall>c \<in> set cs. c \<noteq> [] \<and> CHR ''/'' \<notin> set c \<and> c \<noteq> ''.'' \<and> c \<noteq> ''..''"
  shows "normpath (CHR ''/'' # join_sep cs) = CHR ''/'' # join_sep cs"
proof (cases "cs = []")
  case True
  then show ?thesis by (simp add: normpath_def startswith_def)
next
  case False
  then have h: "hd cs \<in> set cs" by simp
  then have hh: "hd cs \<noteq> []" "CHR ''/'' \<notin> set (hd cs)" using assms by auto
  then have "hd (hd cs) \<noteq> CHR ''/''" by (cases "hd cs") auto
  then have j: "join_sep cs \<noteq> []" "hd (join_sep cs) \<noteq> CHR ''/''"
    using join_sep_hd [OF False hh(1)] by auto
  then have s: "\<not> startswith (CHR ''/'' # join_sep cs) ''//''"
    by (cases "join_sep cs") (auto simp: startswith_def)
  have "split_sep (CHR ''/'' # join_sep cs) = [] # cs"
    using False assms by (simp add: split_sep_join_sep)
  then show ?thesis
    using s assms by (simp add: normpath_def startswith_def norm_comps_plain Let_def)
qed

lemma path_parts_normal:
  assumes "\<forall>c \<in> set cs. c \<noteq> [] \<and> CHR ''/'' \<notin> set c \<and> c \<noteq> ''.'' \<and> c \<noteq> ''..''"
  shows "path_parts cwd (CHR ''/'' # join_sep cs) = cs"
  using assms parts_of_joined [of cs]
  by (simp add: path_parts_def abspath_def isabs_def startswith_def normpath_normal)

lemma endswith_slash: "endswith s ''/'' \<longleftrightarrow> s \<noteq> [] \<and> last s = CHR ''/''"
  by (cases s rule: rev_cases) (auto simp: endswith_def suffix_def)

lemma posix_join_plain:
  "a \<noteq> [] \<Longrightarrow> CHR ''/'' \<notin> set a \<Longrightarrow> \<forall>c \<in> set rest. c \<noteq> [] \<and> CHR ''/'' \<notin> set c \<Longrightarrow>
   posix_join (pre @ a) rest = pre @ join_sep (a # rest)"
proof (induction rest arbitrary: a pre)
  case Nil
  then show ?case by simp
next
  case (Cons b rest)
  have nb: "\<not> startswith b ''/''" using Cons.prems by (cases b) (auto simp: startswith_def)
  have na: "\<not> endswith (pre @ a) ''/''"
    using Cons.prems(1,2) by (cases a rule: rev_cases) (auto simp: endswith_slash)
  have "posix_join (pre @ a) (b # rest) = posix_join ((pre @ a @ ''/'') @ b) rest"
    using nb na Cons.prems(1) by simp
  also have "\<dots> = (pre @ a @ ''/'') @ join_sep (b # rest)"
    using Cons.prems by (intro Cons.IH) auto
  finally show ?case by simp
qed

lemma commonprefix_length: "length (commonprefix xs ys) = length xs \<longleftrightarrow> prefix xs ys"
  by (induction xs ys rule: commonprefix.induct) auto

lemma commonprefix_le: "length (commonprefix xs ys) \<le> length xs"
  by (induction xs ys rule: commonprefix.induct) auto

lemma join_sep_append:
  "xs \<noteq> [] \<Longrightarrow> ys \<noteq> [] \<Longrightarrow> join_sep (xs @ ys) = join_sep xs @ CHR ''/'' # join_sep ys"
  by (induction xs rule: join_sep.induct) (auto simp: join_sep_Cons)

lemma join_sep_drop_suffix: "suffix (join_sep (drop i cs)) (CHR ''/'' # join_sep cs)"
proof (cases "take i cs = [] \<or> drop i cs = []")
  case True
  then show ?thesis
  proof
    assume "take i cs = []"
    then have "drop i cs = cs" by (cases i; cases cs) auto
    then show ?thesis by (simp add: suffix_Cons)
  next
    assume "drop i cs = []"
    then show ?thesis by simp
  qed
next
  case False
  then have "join_sep (take i cs @ drop i cs) =
      join_sep (take i cs) @ CHR ''/'' # join_sep (drop i cs)"
    by (intro join_sep_append) auto
  then have "CHR ''/'' # join_sep cs =
      (CHR ''/'' # join_sep (take i cs) @ ''/'') @ join_sep (drop i cs)"
    by simp
  then show ?thesis unfolding suffix_def by blast
qed

lemma dotdot_component:
  "t = [] \<or> hd t = CHR ''/'' \<Longrightarrow> \<exists>c \<in> set (split_sep (u @ ''..'' @ t)). suffix ''..'' c"
proof (induction u)
  case Nil
  then show ?case by (cases t) (auto split: list.splits)
next
  case (Cons a u)
  then obtain c where c: "c \<in> set (split_sep (u @ ''..'' @ t))" "suffix ''..'' c"
    by blast
  show ?case
  proof (cases "a = CHR ''/''")
    case True
    then show ?thesis using c by auto
  next
    case False
    obtain x xs where x: "split_sep (u @ ''..'' @ t) = x # xs"
      using split_sep_nonempty [of "u @ ''..'' @ t"] by (cases "split_sep (u @ ''..'' @ t)") auto
    then have "c = x \<or> c \<in> set xs" using c(1) by auto
    then show ?thesis
    proof
      assume "c = x"
      then have "suffix ''..'' (a # x)" using c(2) by (simp add: suffix_Cons)
      then show ?thesis using False x by auto
    next
      assume "c \<in> set xs"
      then show ?thesis using False x c(2) by auto
    qed
  qed
qed

lemma join_sep_dotdot:
  "\<exists>t. join_sep (''..'' # rest) = ''..'' @ t \<and> (t = [] \<or> hd t = CHR ''/'')"
  by (cases rest) auto

lemma dotdot_not_suffix:
  assumes "\<forall>c \<in> set cs. c \<noteq> [] \<and> CHR ''/'' \<notin> set c \<and> \<not> endswith c ''..''"
  shows "\<not> endswith (CHR ''/'' # join_sep cs) (join_sep (''..'' # rest))"
proof
  assume e: "endswith (CHR ''/'' # join_sep cs) (join_sep (''..'' # rest))"
  obtain t where t: "join_sep (''..'' # rest) = ''..'' @ t" "t = [] \<or> hd t = CHR ''/''"
    using join_sep_dotdot by blast
  from e t(1) obtain u where u: "CHR ''/'' # join_sep cs = u @ ''..'' @ t"
    unfolding endswith_def suffix_def by auto
  from dotdot_component [OF t(2), of u] u
  obtain c where c: "c \<in> set (split_sep (CHR ''/'' # join_sep cs))" "suffix ''..'' c"
    by auto
  have "set (split_sep (CHR ''/'' # join_sep cs)) \<subseteq> insert [] (set cs)"
  proof (cases "cs = []")
    case True
    then show ?thesis by simp
  next
    case False
    then show ?thesis using assms by (simp add: split_sep_join_sep)
  qed
  with c(1) have "c = [] \<or> c \<in> set cs" by auto
  then show False using c(2) assms by (auto simp: endswith_def)
qed

lemma plain_componentD2:
  "\<forall>c \<in> set cs. plain_component c \<Longrightarrow>
   \<forall>c \<in> set cs. c \<noteq> [] \<and> CHR ''/'' \<notin> set c \<and> c \<noteq> ''.'' \<and> c \<noteq> ''..''"
  by (auto simp: plain_component_def endswith_def)

lemma plain_componentD3:
  "\<forall>c \<in> set cs. plain_component c \<Longrightarrow> \<forall>c \<in> set cs. c \<noteq> [] \<and> CHR ''/'' \<notin> set c"
  by (simp add: plain_component_def)

lemma plain_componentD4:
  "\<forall>c \<in> set cs. plain_component c \<Longrightarrow>
   \<forall>c \<in> set cs. c \<noteq> [] \<and> CHR ''/'' \<notin> set c \<and> \<not> endswith c ''..''"
  by (simp add: plain_component_def)

lemma rel_list_shape:
  assumes "\<forall>c \<in> set cs. c \<noteq> [] \<and> CHR ''/'' \<notin> set c"
  shows "\<forall>c \<in> set (replicate n ''..'' @ drop i cs). c \<noteq> [] \<and> CHR ''/'' \<notin> set c"
  using assms by (auto dest: in_set_dropD)

lemma relpath_unfold:
  "p \<noteq> [] \<Longrightarrow> path_parts cwd p = cs \<Longrightarrow> path_parts cwd root = rs \<Longrightarrow>
   replicate (length rs - length (commonprefix rs cs)) ''..'' @
     drop (length (commonprefix rs cs)) cs = rel \<Longrightarrow>
   posix_relpath cwd p root = (case rel of [] \<Rightarrow> Inr ''.'' | a # rest \<Rightarrow> Inr (posix_join a rest))"
  unfolding posix_relpath_def Let_def by auto

lemma relpath_normal:
  assumes "\<forall>c \<in> set cs. plain_component c"
  shows "posix_relpath cwd (CHR ''/'' # join_sep cs) root =
     (let rs = path_parts cwd root;
          i = length (commonprefix rs cs);
          rel_list = replicate (length rs - i) ''..'' @ drop i cs
      in Inr (if rel_list = [] then ''.'' else join_sep rel_list))"
proof -
  let ?rs = "path_parts cwd root"
  let ?i = "length (commonprefix ?rs cs)"
  let ?rel = "replicate (length ?rs - ?i) ''..'' @ drop ?i cs"
  have parts: "path_parts cwd (CHR ''/'' # join_sep cs) = cs"
    using path_parts_normal [OF plain_componentD2 [OF assms]] .
  have el: "\<forall>c \<in> set ?rel. c \<noteq> [] \<and> CHR ''/'' \<notin> set c"
    using rel_list_shape [OF plain_componentD3 [OF assms]] .
  have u: "posix_relpath cwd (CHR ''/'' # join_sep cs) root =
      (case ?rel of [] \<Rightarrow> Inr ''.'' | a # rest \<Rightarrow> Inr (posix_join a rest))"
    by (rule relpath_unfold [OF _ parts refl refl]) simp
  show ?thesis
  proof (cases ?rel)
    case Nil
    then show ?thesis unfolding u Let_def by simp
  next
    case (Cons a rest)
    then have "a \<noteq> []" "CHR ''/'' \<notin> set a" "\<forall>c \<in> set rest. c \<noteq> [] \<and> CHR ''/'' \<notin> set c"
      using el by auto
    from posix_join_plain [OF this, of "[]"] have "posix_join a rest = join_sep (a # rest)"
      by simp
    then show ?thesis unfolding u Let_def using Cons by simp
  qed
qed

text \<open>
  C6, as amended.  With \<^verbatim>\<open>posixpath.relpath\<close> and a normalised absolute path (a
  slash followed by components joined by slashes, none of them empty, \<^verbatim>\<open>.\<close>, or
  ending in \<^verbatim>\<open>..\<close>), the filter keeps the path exactly when the path lies under the
  root, or the path is the root itself and ends in a dot.
\<close>

theorem filter_keeps_iff_under_root:
  assumes "os_path_relpath input_api = posix_relpath cwd"
    and "\<forall>c \<in> set cs. plain_component c"
  shows "keeps input_api repo_root (''/'' @ join_sep cs) \<longleftrightarrow>
           under_root cwd repo_root (''/'' @ join_sep cs) \<or>
           (path_parts cwd repo_root = path_parts cwd (''/'' @ join_sep cs) \<and>
            endswith (''/'' @ join_sep cs) ''.'')"
proof -
  let ?p = "CHR ''/'' # join_sep cs"
  let ?rs = "path_parts cwd repo_root"
  let ?i = "length (commonprefix ?rs cs)"
  let ?rel = "replicate (length ?rs - ?i) ''..'' @ drop ?i cs"
  have parts: "path_parts cwd ?p = cs"
    using path_parts_normal [OF plain_componentD2 [OF assms(2)]] .
  have k: "keeps input_api repo_root ?p \<longleftrightarrow>
      endswith ?p (if ?rel = [] then ''.'' else join_sep ?rel)"
    unfolding keeps_iff assms(1) relpath_normal [OF assms(2)] Let_def by simp
  consider (under) "strict_prefix ?rs cs" | (same) "?rs = cs" | (other) "\<not> prefix ?rs cs"
    by (auto simp: strict_prefix_def)
  then show ?thesis
  proof cases
    case under
    then have i: "?i = length ?rs" "length ?rs < length cs"
      by (auto simp: commonprefix_length strict_prefix_def prefix_def)
    then have "?rel = drop (length ?rs) cs" "drop (length ?rs) cs \<noteq> []" by auto
    then have "keeps input_api repo_root ?p"
      using k join_sep_drop_suffix [of "length ?rs" cs] by (simp add: endswith_def)
    then show ?thesis using under by (simp add: under_root_def parts)
  next
    case same
    then have "?i = length ?rs" by (simp add: commonprefix_length)
    then have "?rel = []" using same by simp
    then have "keeps input_api repo_root ?p \<longleftrightarrow> endswith ?p ''.''" using k by simp
    then show ?thesis using same by (simp add: under_root_def parts)
  next
    case other
    then have "?i \<noteq> length ?rs" by (simp add: commonprefix_length)
    then have "?i < length ?rs" using commonprefix_le [of ?rs cs] by simp
    then obtain m where "length ?rs - ?i = Suc m" by (cases "length ?rs - ?i") auto
    then have r: "?rel = ''..'' # (replicate m ''..'' @ drop ?i cs)" by simp
    have "\<not> endswith ?p (join_sep (''..'' # (replicate m ''..'' @ drop ?i cs)))"
      using dotdot_not_suffix [OF plain_componentD4 [OF assms(2)]] .
    then have "\<not> keeps input_api repo_root ?p"
      unfolding k r by simp
    moreover have "path_parts cwd repo_root \<noteq> cs" using other by auto
    ultimately show ?thesis using other by (simp add: under_root_def parts strict_prefix_def)
  qed
qed

lemma ex_plain: "\<forall>c \<in> set [''r'', ''w'', ''d'', ''c.js'']. plain_component c"
  by code_simp

lemma ex_under: "under_root ''/r/w'' ''/r/w'' ''/r/w/d/c.js''"
  by code_simp

lemma ex_relpath: "os_path_relpath ex_api = posix_relpath ''/r/w''"
  by (simp add: ex_api_def)

lemma ex_joined: "''/'' @ join_sep [''r'', ''w'', ''d'', ''c.js''] = ''/r/w/d/c.js''"
  by simp

theorem filter_keeps_iff_under_root_witness:
  "keeps ex_api ''/r/w'' ''/r/w/d/c.js'' \<and> under_root ''/r/w'' ''/r/w'' ''/r/w/d/c.js''"
proof -
  have "keeps ex_api ''/r/w'' ''/r/w/d/c.js''"
    using filter_keeps_iff_under_root [OF ex_relpath ex_plain, of "''/r/w''"] ex_under
    unfolding ex_joined by simp
  then show ?thesis using ex_under by (rule conjI)
qed

text \<open>
  C6 as stated fails in both directions: below the root \<^verbatim>\<open>/r/x../d\<close> the filter
  keeps \<^verbatim>\<open>/r/x../c\<close>, which is not under it (its relative path \<^verbatim>\<open>../c\<close> is an
  end of the path); and the filter drops the absolute path \<^verbatim>\<open>/r/w/a//b.html\<close>,
  which is under the root \<^verbatim>\<open>/r/w\<close> (its relative path is \<^verbatim>\<open>a/b.html\<close>).
\<close>

theorem filter_differs_from_under_root:
  "keeps ex_api ''/r/x../d'' ''/r/x../c'' \<and> \<not> under_root ''/r/w'' ''/r/x../d'' ''/r/x../c'' \<and>
   \<not> keeps ex_api ''/r/w'' ''/r/w/a//b.html'' \<and> under_root ''/r/w'' ''/r/w'' ''/r/w/a//b.html''"
  by code_simp

end
